theory Spec2Isabelle
  imports Complex_Main
begin

section \<open>Multi-sample voice enrollment: \<open>audio/embedding_utils.py\<close>\<close>

text \<open>
  Conventions of the embedding.
  \<^item> A Python \<open>float\<close> (and a float32 tensor entry) is a \<^typ>\<open>real\<close>: arithmetic is
    exact, there is no NaN and no infinity. Comparisons, guards and raised exceptions are
    those of the source.
  \<^item> A speaker embedding is a one-dimensional tensor ("each of shape (D,)" in the
    docstring), a list of reals. The \<open>device\<close> argument only places the tensor and is
    left out.
  \<^item> An exception is a value of \<open>py_error\<close>; a function that can raise returns
    \<open>py_error + 'a\<close>.
  \<^item> A transcript is a Python \<open>str\<close>, the list of its Unicode code points, because
    \<open>str.strip\<close> works on code points. A path is only passed on and compared, and is
    a \<^typ>\<open>string\<close>.
\<close>

datatype py_error = ValueError | ZeroDivisionError | RuntimeError | IndexError

type_synonym tensor = "real list"

type_synonym py_str = "nat list"

subsection \<open>Exceptions as values\<close>

definition bindE :: "'e + 'a \<Rightarrow> ('a \<Rightarrow> 'e + 'b) \<Rightarrow> 'e + 'b" where
  "bindE m f = (case m of Inl e \<Rightarrow> Inl e | Inr x \<Rightarrow> f x)"

text \<open>A list comprehension or loop whose body can raise: the first exception wins.\<close>

fun mapE :: "('a \<Rightarrow> 'e + 'b) \<Rightarrow> 'a list \<Rightarrow> 'e + 'b list" where
  "mapE f [] = Inr []"
| "mapE f (x # xs) = bindE (f x) (\<lambda>y. bindE (mapE f xs) (\<lambda>ys. Inr (y # ys)))"

text \<open>Python's \<open>a / b\<close> on floats raises \<open>ZeroDivisionError\<close> when \<open>b == 0\<close>.\<close>

definition py_truediv :: "real \<Rightarrow> real \<Rightarrow> py_error + real" where
  "py_truediv a b = (if b = 0 then Inl ZeroDivisionError else Inr (a / b))"

subsection \<open>Tensor operations used by the fuser\<close>

definition l2_norm :: "tensor \<Rightarrow> real" where
  "l2_norm v = sqrt (sum_list (map (\<lambda>x. x * x) v))"

text \<open>\<open>F.normalize(v, dim=-1)\<close>: \<open>v / max(||v||, eps)\<close> with torch's default \<open>eps = 1e-12\<close>.\<close>

definition F_normalize_eps :: real where
  "F_normalize_eps = 1 / 10 ^ 12"

definition F_normalize :: "tensor \<Rightarrow> tensor" where
  "F_normalize v = map (\<lambda>x. x / max (l2_norm v) F_normalize_eps) v"

text \<open>\<open>torch.stack\<close> raises a \<open>RuntimeError\<close> unless all tensors have the same shape.\<close>

definition stack :: "tensor list \<Rightarrow> py_error + tensor list" where
  "stack ts = (case ts of
       [] \<Rightarrow> Inl RuntimeError
     | t # rest \<Rightarrow> if list_all (\<lambda>u. length u = length t) rest then Inr ts else Inl RuntimeError)"

text \<open>\<open>stacked.mean(dim=0)\<close> on a stack of equally long rows.\<close>

definition mean_dim0 :: "tensor list \<Rightarrow> tensor" where
  "mean_dim0 ts = (case ts of
       [] \<Rightarrow> []
     | t # rest \<Rightarrow> map (\<lambda>j. sum_list (map (\<lambda>u. u ! j) ts) / real (length ts)) [0..<length t])"

text \<open>\<open>(emb.flatten() * centroid.flatten()).sum().item()\<close>\<close>

definition dot :: "tensor \<Rightarrow> tensor \<Rightarrow> real" where
  "dot a b = sum_list (map2 (*) a b)"

definition zeros_like :: "tensor \<Rightarrow> tensor" where
  "zeros_like t = replicate (length t) 0"

definition scale :: "real \<Rightarrow> tensor \<Rightarrow> tensor" where
  "scale w t = map (\<lambda>x. w * x) t"

definition add_tensor :: "tensor \<Rightarrow> tensor \<Rightarrow> tensor" where
  "add_tensor a b = map2 (+) a b"

subsection \<open>The embedding fuser: \<open>combine_speaker_embeddings\<close>\<close>

text \<open>
  The outlier loop (lines 207-216): a pair is skipped when the threshold is positive and
  the similarity to the centroid is below it.
\<close>

fun filter_outliers :: "real \<Rightarrow> tensor \<Rightarrow> (tensor \<times> real) list \<Rightarrow> (tensor \<times> real) list" where
  "filter_outliers th c [] = []"
| "filter_outliers th c ((emb, w) # rest) =
     (if th > 0 \<and> dot emb c < th then filter_outliers th c rest
      else (emb, w) # filter_outliers th c rest)"

text \<open>The weighted-mean loop (lines 229-231): \<open>combined = combined + w * emb\<close>.\<close>

fun weighted_sum :: "tensor \<Rightarrow> (tensor \<times> real) list \<Rightarrow> tensor" where
  "weighted_sum combined [] = combined"
| "weighted_sum combined ((emb, w) # rest) = weighted_sum (add_tensor combined (scale w emb)) rest"

text \<open>Lines 195-196: \<open>weights = [1.0] * len(normed)\<close> when no weights are given.\<close>

definition default_weights :: "real list option \<Rightarrow> nat \<Rightarrow> real list" where
  "default_weights weights n = (case weights of None \<Rightarrow> replicate n 1 | Some l \<Rightarrow> l)"

text \<open>Lines 199-201: the L2-normalized mean of the stacked embeddings.\<close>

definition centroid_of :: "tensor list \<Rightarrow> tensor" where
  "centroid_of stacked = F_normalize (mean_dim0 stacked)"

text \<open>
  Lines 225-231: the weights are divided by their sum, then the weighted sum is taken.
  \<open>valid_embeddings[0]\<close> exists at the only call: the list is either the full list of
  at least two embeddings or the non-empty list of survivors.
\<close>

definition weighted_mean :: "tensor list \<Rightarrow> real list \<Rightarrow> py_error + tensor" where
  "weighted_mean valid_embeddings valid_weights =
     (let total_w = sum_list valid_weights
      in bindE (mapE (\<lambda>w. py_truediv w total_w) valid_weights) (\<lambda>vw.
           Inr (weighted_sum (zeros_like (hd valid_embeddings)) (zip valid_embeddings vw))))"

definition combine_speaker_embeddings ::
    "tensor list \<Rightarrow> real list option \<Rightarrow> real \<Rightarrow> py_error + tensor" where
  "combine_speaker_embeddings embeddings weights outlier_threshold =
     (case embeddings of
        [] \<Rightarrow> Inl ValueError
      | [e] \<Rightarrow> Inr (F_normalize e)
      | e # _ # _ \<Rightarrow>
          (let normed = map F_normalize embeddings;
               ws = default_weights weights (length normed)
           in bindE (stack normed) (\<lambda>stacked.
                let centroid = centroid_of stacked;
                    valid = filter_outliers outlier_threshold centroid (zip normed ws);
                    valid_embeddings = (if valid = [] then normed else map fst valid);
                    valid_weights = (if valid = [] then ws else map snd valid)
                in bindE (weighted_mean valid_embeddings valid_weights) (\<lambda>combined.
                     Inr (F_normalize combined)))))"

subsection \<open>Decoded audio\<close>

text \<open>
  \<open>soundfile.read\<close> is not part of the repository. It either raises or returns the
  samples and the sample rate: a one-dimensional array for a mono file, an array of shape
  (frames, channels) otherwise. The sample rate of a decoded file is a non-negative
  integer. The file system is a parameter: a function from a path to what \<open>sf.read\<close>
  does on it.
\<close>

datatype audio_data = Mono "real list" | Multi "real list list"

datatype sf_result = ReadError | Decoded audio_data nat

type_synonym soundfile = "string \<Rightarrow> sf_result"

text \<open>\<open>len(data)\<close>: the number of frames.\<close>

fun data_len :: "audio_data \<Rightarrow> nat" where
  "data_len (Mono xs) = length xs"
| "data_len (Multi rows) = length rows"

definition get_audio_duration :: "soundfile \<Rightarrow> string \<Rightarrow> real" where
  "get_audio_duration sf audio_path =
     (case sf audio_path of
        ReadError \<Rightarrow> 0
      | Decoded data sr \<Rightarrow>
          (case py_truediv (real (data_len data)) (real sr) of
             Inl _ \<Rightarrow> 0
           | Inr d \<Rightarrow> d))"

text \<open>\<open>np.mean\<close> and \<open>np.sqrt(np.mean(x**2))\<close>.\<close>

definition mean :: "real list \<Rightarrow> real" where
  "mean xs = sum_list xs / real (length xs)"

definition rms :: "real list \<Rightarrow> real" where
  "rms xs = sqrt (mean (map (\<lambda>x. x * x) xs))"

text \<open>Lines 49-51: \<open>np.mean(audio, axis=1)\<close> when the array has more than one dimension.\<close>

fun to_mono :: "audio_data \<Rightarrow> real list" where
  "to_mono (Mono xs) = xs"
| "to_mono (Multi rows) = map mean rows"

text \<open>
  \<open>np.percentile(a, q)\<close> with numpy's default linear interpolation between the two
  nearest ranks of the sorted data (numpy is not part of the repository).
\<close>

definition percentile :: "real list \<Rightarrow> real \<Rightarrow> real" where
  "percentile a q =
     (let s = sort a;
          pos = q / 100 * real (length s - 1);
          lo = nat \<lfloor>pos\<rfloor>;
          hi = min (lo + 1) (length s - 1)
      in s ! lo + (pos - real lo) * (s ! hi - s ! lo))"

definition near_zero :: real where
  "near_zero = 1 / 10 ^ 10"

text \<open>Line 57: \<open>max(1, int(sr * 0.02))\<close>.\<close>

definition frame_size_of :: "nat \<Rightarrow> nat" where
  "frame_size_of sr = max 1 (nat \<lfloor>real sr * 0.02\<rfloor>)"

text \<open>Lines 62-65: the frame loop, \<open>audio[i * frame_size : (i + 1) * frame_size]\<close>.\<close>

definition frame_rms_of :: "real list \<Rightarrow> nat \<Rightarrow> nat \<Rightarrow> real list" where
  "frame_rms_of audio frame_size n_frames =
     map (\<lambda>i. rms (take ((i + 1) * frame_size - i * frame_size) (drop (i * frame_size) audio)))
       [0..<n_frames]"

definition estimate_snr :: "soundfile \<Rightarrow> string \<Rightarrow> real" where
  "estimate_snr sf audio_path =
     (case sf audio_path of
        ReadError \<Rightarrow> 20
      | Decoded data sr \<Rightarrow>
          if data_len data = 0 \<or> sr \<le> 0 then 0
          else
            (let audio = to_mono data;
                 rms_total = rms audio
             in if rms_total < near_zero then 0
                else
                  (let frame_size = frame_size_of sr;
                       n_frames = length audio div frame_size
                   in if n_frames < 10 then 20
                      else
                        (let frame_rms = frame_rms_of audio frame_size n_frames;
                             noise_floor = percentile frame_rms 10
                         in if noise_floor < near_zero then 40
                            else
                              (let snr = 20 * log 10 (rms_total / noise_floor)
                               in max 0 (min 60 snr))))))"

subsection \<open>Sample records and the analyzer: \<open>analyze_audio_samples\<close>\<close>

record AudioSampleInfo =
  path :: string
  duration :: real
  transcript :: "py_str option"
  snr_estimate :: "real option"
  is_primary :: bool
  weight :: real

text \<open>Python's \<open>x or d\<close> on an optional float: \<open>None\<close> and \<open>0.0\<close> are both falsy.\<close>

definition py_or :: "real option \<Rightarrow> real \<Rightarrow> real" where
  "py_or x d = (case x of None \<Rightarrow> d | Some v \<Rightarrow> if v = 0 then d else v)"

text \<open>
  \<open>str.isspace\<close> on one code point: the characters that \<open>str.strip()\<close> removes. These
  are U+0009 to U+000D, U+001C to U+0020, U+0085, U+00A0, U+1680, U+2000 to U+200A, U+2028,
  U+2029, U+202F, U+205F and U+3000.
\<close>

definition py_isspace :: "nat \<Rightarrow> bool" where
  "py_isspace c =
     ((0x09 \<le> c \<and> c \<le> 0x0D) \<or> (0x1C \<le> c \<and> c \<le> 0x20) \<or> c = 0x85 \<or> c = 0xA0 \<or>
      c = 0x1680 \<or> (0x2000 \<le> c \<and> c \<le> 0x200A) \<or> c = 0x2028 \<or> c = 0x2029 \<or>
      c = 0x202F \<or> c = 0x205F \<or> c = 0x3000)"

definition strip :: "py_str \<Rightarrow> py_str" where
  "strip s = rev (dropWhile py_isspace (rev (dropWhile py_isspace s)))"

text \<open>
  \<open>s.transcript and s.transcript.strip()\<close>: the transcript is present, not empty, and
  not empty after stripping.
\<close>

definition has_transcript :: "py_str option \<Rightarrow> bool" where
  "has_transcript t = (case t of None \<Rightarrow> False | Some s \<Rightarrow> s \<noteq> [] \<and> strip s \<noteq> [])"

text \<open>
  \<open>max(iterable, key=f)\<close>: raises \<open>ValueError\<close> on an empty iterable; a later item
  replaces the best one only when its key is strictly greater.
\<close>

fun py_max_key :: "('a \<Rightarrow> real) \<Rightarrow> 'a list \<Rightarrow> py_error + 'a" where
  "py_max_key f [] = Inl ValueError"
| "py_max_key f (x # xs) = Inr (foldl (\<lambda>best y. if f best < f y then y else best) x xs)"

text \<open>Lines 94-98: the transcripts, padded with \<open>None\<close> up to the number of paths.\<close>

definition pad_transcripts :: "nat \<Rightarrow> py_str option list option \<Rightarrow> py_str option list" where
  "pad_transcripts n transcripts =
     (let transcript_list = (case transcripts of None \<Rightarrow> replicate n None | Some ts \<Rightarrow> ts)
      in if length transcript_list < n
         then transcript_list @ replicate (n - length transcript_list) None
         else transcript_list)"

text \<open>Lines 100-113: one record per path; \<open>weight\<close> keeps the dataclass default 1.0.\<close>

definition initial_samples :: "soundfile \<Rightarrow> string list \<Rightarrow> py_str option list \<Rightarrow> AudioSampleInfo list" where
  "initial_samples sf audio_paths transcript_list =
     map (\<lambda>(i, (p, t)).
            \<lparr>path = p, duration = get_audio_duration sf p, transcript = t,
             snr_estimate = Some (estimate_snr sf p), is_primary = (i = 0), weight = 1\<rparr>)
       (enumerate 0 (zip audio_paths transcript_list))"

text \<open>Lines 123-124: \<open>snr = s.snr_estimate or 20.0; quality_weight = min(1.0, snr / 40.0)\<close>.\<close>

definition quality_weight :: "AudioSampleInfo \<Rightarrow> real" where
  "quality_weight s = (let snr = py_or (snr_estimate s) 20 in min 1 (snr / 40))"

text \<open>Lines 116-127.\<close>

definition compute_weights :: "AudioSampleInfo list \<Rightarrow> py_error + AudioSampleInfo list" where
  "compute_weights samples =
     (let total_duration = sum_list (map duration samples)
      in if total_duration > 0
         then mapE (\<lambda>s. bindE (py_truediv (duration s) total_duration) (\<lambda>duration_weight.
                      Inr (s\<lparr>weight := 0.7 * duration_weight + 0.3 * quality_weight s\<rparr>))) samples
         else Inr samples)"

text \<open>Lines 130-133.\<close>

definition normalize_weights :: "AudioSampleInfo list \<Rightarrow> py_error + AudioSampleInfo list" where
  "normalize_weights samples =
     (let total_weight = sum_list (map weight samples)
      in if total_weight > 0
         then mapE (\<lambda>s. bindE (py_truediv (weight s) total_weight) (\<lambda>w.
                      Inr (s\<lparr>weight := w\<rparr>))) samples
         else Inr samples)"

text \<open>Line 146: the key of the primary re-selection.\<close>

definition primary_key :: "AudioSampleInfo list \<Rightarrow> nat \<Rightarrow> real" where
  "primary_key samples i = duration (samples ! i) * py_or (snr_estimate (samples ! i)) 20"

text \<open>Lines 138-143.\<close>

definition samples_with_transcript :: "AudioSampleInfo list \<Rightarrow> nat list" where
  "samples_with_transcript samples =
     filter (\<lambda>i. has_transcript (transcript (samples ! i))) [0..<length samples]"

definition candidates :: "AudioSampleInfo list \<Rightarrow> nat list" where
  "candidates samples =
     (if samples_with_transcript samples \<noteq> [] then samples_with_transcript samples
      else [0..<length samples])"

text \<open>Lines 137-149.\<close>

definition select_primary :: "AudioSampleInfo list \<Rightarrow> py_error + AudioSampleInfo list" where
  "select_primary samples =
     (if samples = [] then Inr samples
      else bindE (py_max_key (primary_key samples) (candidates samples)) (\<lambda>best_idx.
             Inr (map (\<lambda>(i, s). s\<lparr>is_primary := (i = best_idx)\<rparr>) (enumerate 0 samples))))"

definition analyze_audio_samples ::
    "soundfile \<Rightarrow> string list \<Rightarrow> py_str option list option \<Rightarrow> py_error + AudioSampleInfo list" where
  "analyze_audio_samples sf audio_paths transcripts =
     bindE (compute_weights
              (initial_samples sf audio_paths (pad_transcripts (length audio_paths) transcripts)))
       (\<lambda>weighted. bindE (normalize_weights weighted) select_primary)"

subsection \<open>The prompt assembler: \<open>create_combined_voice_clone_prompt\<close>\<close>

text \<open>
  The prompt item of the synthesis model; \<open>'c\<close> is the type of the reference codes,
  which this module only copies.
\<close>

record 'c VoiceClonePromptItem =
  ref_code :: "'c option"
  ref_spk_embedding :: tensor
  x_vector_only_mode :: bool
  icl_mode :: bool
  ref_text :: "py_str option"

text \<open>
  The synthesis model is not part of the repository and is a parameter:
  \<open>model.create_voice_clone_prompt(ref_audio, ref_text, x_vector_only_mode)\<close> returns a
  list of prompt items or raises.
\<close>

type_synonym 'c tts_model =
  "string \<Rightarrow> py_str option \<Rightarrow> bool \<Rightarrow> py_error + 'c VoiceClonePromptItem list"

text \<open>\<open>prompt[0]\<close>\<close>

definition first_item :: "'a list \<Rightarrow> py_error + 'a" where
  "first_item xs = (case xs of [] \<Rightarrow> Inl IndexError | x # _ \<Rightarrow> Inr x)"

text \<open>Lines 264-271.\<close>

definition collect_prompts ::
    "'c tts_model \<Rightarrow> AudioSampleInfo list \<Rightarrow> bool \<Rightarrow>
       py_error + (AudioSampleInfo \<times> 'c VoiceClonePromptItem) list" where
  "collect_prompts model sample_infos x_only =
     mapE (\<lambda>info. bindE (model (path info) (transcript info) x_only) (\<lambda>prompt.
             bindE (first_item prompt) (\<lambda>p. Inr (info, p)))) sample_infos"

text \<open>
  Lines 286-303: the fallback chain; each \<open>for ... if ...: primary_prompt = prompt; break\<close>
  takes the first pair that satisfies the test.
\<close>

definition first_prompt_where ::
    "(AudioSampleInfo \<Rightarrow> bool) \<Rightarrow> (AudioSampleInfo \<times> 'p) list \<Rightarrow> 'p option" where
  "first_prompt_where P all_prompts = map_option snd (find (\<lambda>(info, prompt). P info) all_prompts)"

definition or_else :: "'a option \<Rightarrow> 'a option \<Rightarrow> 'a option" where
  "or_else a b = (case a of None \<Rightarrow> b | Some x \<Rightarrow> Some x)"

definition choose_primary_prompt ::
    "(AudioSampleInfo \<times> 'p) list \<Rightarrow> bool \<Rightarrow> 'p" where
  "choose_primary_prompt all_prompts x_only =
     (let p1 = (if \<not> x_only
                then or_else
                       (first_prompt_where
                          (\<lambda>info. is_primary info \<and> has_transcript (transcript info)) all_prompts)
                       (first_prompt_where (\<lambda>info. has_transcript (transcript info)) all_prompts)
                else None);
          p2 = or_else p1 (first_prompt_where is_primary all_prompts)
      in case p2 of Some p \<Rightarrow> p | None \<Rightarrow> snd (hd all_prompts))"

definition create_combined_voice_clone_prompt ::
    "'c tts_model \<Rightarrow> AudioSampleInfo list \<Rightarrow> bool \<Rightarrow> py_error + 'c VoiceClonePromptItem list" where
  "create_combined_voice_clone_prompt model sample_infos x_only =
     (if sample_infos = [] then Inl ValueError
      else bindE (collect_prompts model sample_infos x_only) (\<lambda>all_prompts.
             let embeddings = map (\<lambda>p. ref_spk_embedding (snd p)) all_prompts;
                 weights = map (\<lambda>p. weight (fst p)) all_prompts
             in bindE (combine_speaker_embeddings embeddings (Some weights) 0.7)
                  (\<lambda>combined_embedding.
                     let primary_prompt = choose_primary_prompt all_prompts x_only
                     in Inr [\<lparr>ref_code = (if x_only then None else ref_code primary_prompt),
                              ref_spk_embedding = combined_embedding,
                              x_vector_only_mode = x_only,
                              icl_mode = (\<not> x_only),
                              ref_text = (if \<not> x_only then ref_text primary_prompt else None)\<rparr>])))"

subsection \<open>The quality estimate as the specification words it\<close>

text \<open>
  Section 4.1 of the specification, written down independently of the code: average the
  channels, report 0 for a near-silent signal, cut the signal into consecutive complete
  frames of about 20 ms, report 20 dB for fewer than ten frames, take the 10th percentile
  of the frame RMS values as the noise floor, report 40 dB for a near-zero floor, and
  otherwise clamp \<open>20 * log10 (total_rms / noise_floor)\<close> to the interval from 0 to 60.
\<close>

fun frames :: "nat \<Rightarrow> real list \<Rightarrow> real list list" where
  "frames n xs = (if n = 0 \<or> length xs < n then [] else take n xs # frames n (drop n xs))"

declare frames.simps [simp del]

definition clamp :: "real \<Rightarrow> real \<Rightarrow> real \<Rightarrow> real" where
  "clamp lo hi x = (if x < lo then lo else if hi < x then hi else x)"

definition spec_quality_estimate :: "audio_data \<Rightarrow> nat \<Rightarrow> real" where
  "spec_quality_estimate data sr =
     (let signal = (case data of Mono xs \<Rightarrow> xs | Multi rows \<Rightarrow> map mean rows);
          total_rms = rms signal
      in if total_rms < near_zero then 0
         else
           (let fs = frames (max 1 (nat \<lfloor>real sr / 50\<rfloor>)) signal
            in if length fs < 10 then 20
               else
                 (let noise_floor = percentile (map rms fs) 10
                  in if noise_floor < near_zero then 40
                     else clamp 0 60 (20 * log 10 (total_rms / noise_floor)))))"

subsection \<open>A small file system for the examples\<close>

text \<open>
  Three mono files at 16 kHz: two seconds of digital silence, a tenth of a second of a
  constant signal, and a file without samples. Every other path cannot be read.
\<close>

text \<open>The transcripts \<open>"hello"\<close> and \<open>"world"\<close>, and a transcript of one space.\<close>

definition demo_hello :: py_str where
  "demo_hello = [104, 101, 108, 108, 111]"

definition demo_world :: py_str where
  "demo_world = [119, 111, 114, 108, 100]"

definition demo_blank :: py_str where
  "demo_blank = [32]"

definition demo_sf :: soundfile where
  "demo_sf p =
     (if p = ''silence.wav'' then Decoded (Mono (replicate 32000 0)) 16000
      else if p = ''short.wav'' then Decoded (Mono (replicate 1600 1)) 16000
      else if p = ''empty.wav'' then Decoded (Mono []) 16000
      else ReadError)"

text \<open>
  A synthesis model for the examples: it raises on the unreadable path and otherwise
  returns one prompt item with a reference code, the embedding \<open>(3, 4)\<close> and the
  transcript it was given.
\<close>

definition demo_model :: "nat tts_model" where
  "demo_model ref_audio transcript_arg x_only =
     (if ref_audio = ''missing.wav'' then Inl RuntimeError
      else Inr [\<lparr>ref_code = Some 7, ref_spk_embedding = [3, 4], x_vector_only_mode = x_only,
                 icl_mode = (\<not> x_only), ref_text = transcript_arg\<rparr>])"

definition demo_infos :: "AudioSampleInfo list" where
  "demo_infos =
     [\<lparr>path = ''short.wav'', duration = 1 / 10, transcript = Some demo_hello,
       snr_estimate = Some 20, is_primary = False, weight = 1 / 2\<rparr>,
      \<lparr>path = ''silence.wav'', duration = 2, transcript = None,
       snr_estimate = Some 0, is_primary = True, weight = 1 / 2\<rparr>]"

section \<open>Properties\<close>

subsection \<open>Exceptions and tensors\<close>

lemma bindE_Inr [simp]: "bindE (Inr x) f = f x"
  by (simp add: bindE_def)

lemma bindE_Inl [simp]: "bindE (Inl e) f = Inl e"
  by (simp add: bindE_def)

lemma sum_sq_nonneg: "0 \<le> sum_list (map (\<lambda>x. x * x) (v::real list))"
  by (induction v) simp_all

lemma sum_sq_div:
  "sum_list (map (\<lambda>x. x * x) (map (\<lambda>x. x / m) v)) = sum_list (map (\<lambda>x. x * x) v) / (m * m)"
  for m :: real
  by (induction v) (simp_all add: add_divide_distrib)

lemma l2_norm_nonneg: "0 \<le> l2_norm v"
  unfolding l2_norm_def by (simp add: sum_sq_nonneg)

lemma l2_norm_sq: "l2_norm v * l2_norm v = sum_list (map (\<lambda>x. x * x) v)"
  unfolding l2_norm_def by (simp add: sum_sq_nonneg)

lemma l2_norm_F_normalize:
  assumes "F_normalize_eps \<le> l2_norm v"
  shows "l2_norm (F_normalize v) = 1"
proof -
  have pos: "0 < l2_norm v" using assms by (simp add: F_normalize_eps_def)
  have m: "max (l2_norm v) F_normalize_eps = l2_norm v" using assms by simp
  have "sum_list (map (\<lambda>x. x * x) (F_normalize v)) = (l2_norm v * l2_norm v) / (l2_norm v * l2_norm v)"
    unfolding F_normalize_def m sum_sq_div by (simp only: l2_norm_sq)
  also have "\<dots> = 1" using pos by simp
  finally have "sum_list (map (\<lambda>x. x * x) (F_normalize v)) = 1" .
  then show ?thesis by (simp add: l2_norm_def)
qed

lemma F_normalize_scale: "F_normalize v = scale (1 / max (l2_norm v) F_normalize_eps) v"
  by (simp add: F_normalize_def scale_def)

lemma length_F_normalize [simp]: "length (F_normalize v) = length v"
  by (simp add: F_normalize_def)

lemma mapE_truediv:
  "mapE (\<lambda>w. py_truediv w t) ws =
     (if t = 0 \<and> ws \<noteq> [] then Inl ZeroDivisionError else Inr (map (\<lambda>w. w / t) ws))"
  by (induction ws) (auto simp: py_truediv_def)

lemma weighted_mean_eq:
  "weighted_mean es ws =
     (if sum_list ws = 0 \<and> ws \<noteq> [] then Inl ZeroDivisionError
      else Inr (weighted_sum (zeros_like (hd es)) (zip es (map (\<lambda>w. w / sum_list ws) ws))))"
  by (simp add: weighted_mean_def mapE_truediv Let_def)

lemma stack_eq:
  "stack ts = (if ts \<noteq> [] \<and> (\<forall>u\<in>set ts. length u = length (hd ts)) then Inr ts else Inl RuntimeError)"
  by (cases ts) (auto simp: stack_def list_all_iff)

lemma filter_outliers_all_below:
  "0 < th \<Longrightarrow> \<forall>(emb, w)\<in>set ps. dot emb c < th \<Longrightarrow> filter_outliers th c ps = []"
  by (induction ps) auto

lemma filter_outliers_disabled: "th \<le> 0 \<Longrightarrow> filter_outliers th c ps = ps"
  by (induction ps) auto

lemma combine_ValueError_iff:
  "(combine_speaker_embeddings embeddings weights th = Inl ValueError) = (embeddings = [])"
  by (auto simp: combine_speaker_embeddings_def Let_def stack_eq weighted_mean_eq split: list.splits)

text \<open>
  The only exception of the fuser on embeddings of one dimension is the division by a
  zero weight sum: with positive weights (the default weights are all 1) it returns.
\<close>

lemma filter_outliers_subset: "set (filter_outliers th c ps) \<subseteq> set ps"
  by (induction th c ps rule: filter_outliers.induct) auto

lemma sum_list_pos_real:
  fixes ws :: "real list"
  assumes "\<forall>w\<in>set ws. 0 < w" "ws \<noteq> []"
  shows "0 < sum_list ws"
  using assms by (induction ws) (auto intro: add_pos_nonneg sum_list_nonneg less_imp_le)

lemma weighted_mean_positive_weights:
  assumes "\<forall>w\<in>set ws. 0 < w"
  shows "\<exists>v. weighted_mean es ws = Inr v"
proof (cases "ws = []")
  case True
  then show ?thesis by (simp add: weighted_mean_eq)
next
  case False
  then have "sum_list ws \<noteq> 0" using sum_list_pos_real [OF assms] by simp
  then show ?thesis by (simp add: weighted_mean_eq)
qed

lemma combine_positive_weights_returns:
  assumes ne: "embeddings \<noteq> []"
    and dims: "\<forall>e\<in>set embeddings. length e = d"
    and pos: "\<forall>w\<in>set (default_weights weights (length embeddings)). 0 < w"
  shows "\<exists>v. combine_speaker_embeddings embeddings weights th = Inr v"
proof (cases embeddings)
  case Nil
  with ne show ?thesis by simp
next
  case (Cons e1 rest)
  show ?thesis
  proof (cases rest)
    case Nil
    then show ?thesis by (simp add: combine_speaker_embeddings_def Cons)
  next
    case (Cons e2 rest')
    let ?normed = "map F_normalize embeddings"
    let ?ws = "default_weights weights (length embeddings)"
    let ?valid = "filter_outliers th (centroid_of ?normed) (zip ?normed ?ws)"
    have e: "embeddings = e1 # e2 # rest'" using \<open>embeddings = e1 # rest\<close> Cons by simp
    have st: "stack ?normed = Inr ?normed" using dims e by (auto simp: stack_eq)
    have "set (map snd ?valid) \<subseteq> set ?ws"
    proof
      fix w assume "w \<in> set (map snd ?valid)"
      then obtain emb where "(emb, w) \<in> set ?valid" by auto
      then have "(emb, w) \<in> set (zip ?normed ?ws)"
        using filter_outliers_subset by blast
      then show "w \<in> set ?ws" by (rule set_zip_rightD)
    qed
    then have vpos: "\<forall>w\<in>set (map snd ?valid). 0 < w" using pos by blast
    obtain v1 where v1: "weighted_mean ?normed ?ws = Inr v1"
      using weighted_mean_positive_weights [OF pos] by blast
    obtain v2 where v2: "weighted_mean (map fst ?valid) (map snd ?valid) = Inr v2"
      using weighted_mean_positive_weights [OF vpos] by blast
    show ?thesis
      using st v1 v2 unfolding combine_speaker_embeddings_def e
      by (simp add: Let_def)
  qed
qed

text \<open>Concrete norms used by the examples below.\<close>

lemma sqrt_25: "sqrt 25 = 5"
  by (rule real_sqrt_unique) simp_all

lemma sqrt_9_25: "sqrt (9 / 25) = 3 / 5"
  by (rule real_sqrt_unique) (simp_all add: power2_eq_square)

lemma F_normalize_4_3: "F_normalize [4, 3] = [4 / 5, 3 / 5]"
  by (simp add: F_normalize_def l2_norm_def sqrt_25 F_normalize_eps_def)

lemma F_normalize_m4_3: "F_normalize [- 4, 3] = [- (4 / 5), 3 / 5]"
  by (simp add: F_normalize_def l2_norm_def sqrt_25 F_normalize_eps_def)

lemma centroid_demo: "centroid_of [[4 / 5, 3 / 5], [- (4 / 5), 3 / 5]] = [0, 1]"
  by (simp add: centroid_of_def mean_dim0_def F_normalize_def l2_norm_def sqrt_9_25 F_normalize_eps_def)

lemma weighted_mean_demo:
  "weighted_mean [[4 / 5, 3 / 5], [- (4 / 5), 3 / 5]] [1, 1] = Inr [0, 3 / 5]"
  by (simp add: weighted_mean_eq zeros_like_def add_tensor_def scale_def)

lemma l2_norm_0_35: "l2_norm [0, 3 / 5] = 3 / 5"
  by (simp add: l2_norm_def sqrt_9_25)

lemma l2_norm_3_4: "l2_norm [3, 4] = 5"
  by (simp add: l2_norm_def sqrt_25)

subsection \<open>The embedding fuser\<close>

text \<open>
  C1. Two embeddings with the weights \<open>[0.0, 0.0]\<close>: both embeddings pass the outlier
  test, the surviving weights sum to 0.0, and the weight normalization of line 226 raises
  \<open>ZeroDivisionError\<close>, although the sequence of embeddings is not empty.
\<close>

theorem combine_zero_weights_raises:
  "combine_speaker_embeddings [[1, 0], [1, 0]] (Some [0, 0]) (7 / 10) = Inl ZeroDivisionError"
  by (simp add: combine_speaker_embeddings_def F_normalize_def l2_norm_def stack_def
      centroid_of_def mean_dim0_def dot_def weighted_mean_eq Let_def F_normalize_eps_def
      default_weights_def)

text \<open>
  C5 (as amended). When the threshold is positive and every embedding's similarity to the
  normalized centroid is below it, the fuser gives up the rejection: the weighted mean is
  taken over all normalized embeddings with the original weights. Provided those weights
  do not sum to zero, the call returns the \<open>F.normalize\<close> of that mean, and the result
  has L2 norm 1 whenever the mean is not shorter than \<open>eps = 1e-12\<close>.
\<close>

theorem fusion_all_excluded:
  assumes len: "2 \<le> length embeddings"
    and dims: "\<forall>e\<in>set embeddings. length e = d"
    and th: "0 < th"
    and below: "\<forall>(emb, w)\<in>set (zip (map F_normalize embeddings) (default_weights weights (length embeddings))).
                  dot emb (centroid_of (map F_normalize embeddings)) < th"
    and total: "sum_list (default_weights weights (length embeddings)) \<noteq> 0"
  shows "\<exists>combined.
           weighted_mean (map F_normalize embeddings) (default_weights weights (length embeddings))
             = Inr combined \<and>
           combine_speaker_embeddings embeddings weights th = Inr (F_normalize combined) \<and>
           (F_normalize_eps \<le> l2_norm combined \<longrightarrow> l2_norm (F_normalize combined) = 1)"
proof -
  let ?normed = "map F_normalize embeddings"
  let ?ws = "default_weights weights (length embeddings)"
  obtain e1 e2 rest where e: "embeddings = e1 # e2 # rest"
    using len by (cases embeddings; cases "tl embeddings") auto
  have st: "stack ?normed = Inr ?normed"
    using dims e by (auto simp: stack_eq)
  have flt: "filter_outliers th (centroid_of ?normed) (zip ?normed ?ws) = []"
    by (rule filter_outliers_all_below [OF th below])
  obtain combined where wm: "weighted_mean ?normed ?ws = Inr combined"
    using total by (auto simp: weighted_mean_eq)
  have "combine_speaker_embeddings embeddings weights th = Inr (F_normalize combined)"
    using st flt wm unfolding combine_speaker_embeddings_def e
    by (simp add: Let_def)
  with wm show ?thesis by (auto intro: l2_norm_F_normalize)
qed

text \<open>
  C5, an instance: the embeddings \<open>(4, 3)\<close> and \<open>(-4, 3)\<close> with the default weights and
  the default threshold 0.7. Both similarities to the centroid \<open>(0, 1)\<close> are 0.6, both
  samples are excluded, and the fallback returns the unit vector \<open>(0, 1)\<close>.
\<close>

theorem fusion_all_excluded_witness:
  "(0::real) < 7 / 10 \<and>
   weighted_mean (map F_normalize [[4, 3], [- 4, 3]]) (default_weights None 2) = Inr [0, 3 / 5] \<and>
   combine_speaker_embeddings [[4, 3], [- 4, 3]] None (7 / 10) = Inr (F_normalize [0, 3 / 5]) \<and>
   l2_norm (F_normalize [0, 3 / 5]) = 1"
proof -
  have len: "2 \<le> length [[4, 3], [- 4, 3::real]]" by simp
  have dims: "\<forall>e\<in>set [[4, 3], [- 4, 3::real]]. length e = 2" by simp
  have th: "(0::real) < 7 / 10" by simp
  have below: "\<forall>(emb, w)\<in>set (zip (map F_normalize [[4, 3], [- 4, 3]])
                    (default_weights None (length [[4, 3], [- 4, 3::real]]))).
                 dot emb (centroid_of (map F_normalize [[4, 3], [- 4, 3]])) < 7 / 10"
    by (simp add: F_normalize_4_3 F_normalize_m4_3 centroid_demo default_weights_def dot_def)
  have total: "sum_list (default_weights None (length [[4, 3], [- 4, 3::real]])) \<noteq> 0"
    by (simp add: default_weights_def)
  have wm: "weighted_mean (map F_normalize [[4, 3], [- 4, 3]]) (default_weights None 2) = Inr [0, 3 / 5]"
    using weighted_mean_demo
    by (simp add: F_normalize_4_3 F_normalize_m4_3 default_weights_def numeral_2_eq_2)
  have eps: "F_normalize_eps \<le> l2_norm [0, 3 / 5]"
    by (simp add: l2_norm_0_35 F_normalize_eps_def)
  show ?thesis
    using fusion_all_excluded [OF len dims th below total] wm eps th
    by (auto simp: numeral_2_eq_2)
qed

text \<open>
  C5 as stated fails: the unit embeddings \<open>(1, 0)\<close> and \<open>(-1, 0)\<close> both have similarity 0
  to the centroid, both are excluded, the fallback averages them to the zero vector, and
  \<open>F.normalize\<close> returns the zero vector, whose norm is 0 and not 1.
\<close>

theorem fusion_all_excluded_zero_vector:
  "dot (F_normalize [1, 0]) (centroid_of (map F_normalize [[1, 0], [- 1, 0]])) < 7 / 10 \<and>
   dot (F_normalize [- 1, 0]) (centroid_of (map F_normalize [[1, 0], [- 1, 0]])) < 7 / 10 \<and>
   combine_speaker_embeddings [[1, 0], [- 1, 0]] None (7 / 10) = Inr [0, 0] \<and>
   l2_norm [0, 0] = 0"
  by (simp add: combine_speaker_embeddings_def F_normalize_def l2_norm_def stack_def
      centroid_of_def mean_dim0_def dot_def weighted_mean_eq Let_def F_normalize_eps_def
      default_weights_def zeros_like_def add_tensor_def scale_def)

text \<open>
  C8 (as amended). A single embedding is returned as \<open>F.normalize\<close> of itself, whatever
  the weights and the threshold are: a positive multiple of the input, of L2 norm 1
  whenever the input's norm is at least \<open>eps = 1e-12\<close>.
\<close>

theorem single_embedding_normalized:
  "combine_speaker_embeddings [e] weights th = Inr (F_normalize e) \<and>
   F_normalize e = scale (1 / max (l2_norm e) F_normalize_eps) e \<and>
   0 < 1 / max (l2_norm e) F_normalize_eps \<and>
   (F_normalize_eps \<le> l2_norm e \<longrightarrow> l2_norm (F_normalize e) = 1)"
proof -
  have "0 < max (l2_norm e) F_normalize_eps"
    by (simp add: F_normalize_eps_def less_max_iff_disj)
  then show ?thesis
    by (simp add: combine_speaker_embeddings_def F_normalize_scale [symmetric] l2_norm_F_normalize)
qed

text \<open>C8, an instance: the embedding \<open>(3, 4)\<close> of norm 5.\<close>

theorem single_embedding_normalized_witness:
  "F_normalize_eps \<le> l2_norm [3, 4] \<and>
   combine_speaker_embeddings [[3, 4]] None (7 / 10) = Inr (F_normalize [3, 4]) \<and>
   l2_norm (F_normalize [3, 4]) = 1"
proof -
  have h: "F_normalize_eps \<le> l2_norm [3, 4]"
    by (simp add: l2_norm_3_4 F_normalize_eps_def)
  show ?thesis
    using single_embedding_normalized [of "[3, 4]" None "7 / 10"] h by blast
qed

text \<open>
  C8 as stated fails: the zero embedding is returned unchanged, and its norm is 0.
\<close>

theorem single_zero_embedding_not_unit:
  "combine_speaker_embeddings [[0, 0]] None (7 / 10) = Inr [0, 0] \<and> l2_norm [0, 0] = 0"
  by (simp add: combine_speaker_embeddings_def F_normalize_def l2_norm_def)

subsection \<open>The analyzer: stages of \<open>analyze_audio_samples\<close>\<close>

lemma mapE_truediv_update:
  "mapE (\<lambda>s. bindE (py_truediv (f s) t) (\<lambda>w. Inr (g s w))) xs =
     (if t = 0 \<and> xs \<noteq> [] then Inl ZeroDivisionError else Inr (map (\<lambda>s. g s (f s / t)) xs))"
  by (induction xs) (auto simp: py_truediv_def)

lemma compute_weights_eq:
  "compute_weights samples =
     Inr (if 0 < sum_list (map duration samples)
          then map (\<lambda>s. s\<lparr>weight := 0.7 * (duration s / sum_list (map duration samples))
                                      + 0.3 * quality_weight s\<rparr>) samples
          else samples)"
  by (simp add: compute_weights_def Let_def mapE_truediv_update)

lemma normalize_weights_eq:
  "normalize_weights samples =
     Inr (if 0 < sum_list (map weight samples)
          then map (\<lambda>s. s\<lparr>weight := weight s / sum_list (map weight samples)\<rparr>) samples
          else samples)"
  by (simp add: normalize_weights_def Let_def mapE_truediv_update)

lemma length_pad_transcripts: "n \<le> length (pad_transcripts n transcripts)"
  by (auto simp: pad_transcripts_def Let_def split: option.splits)

lemma nth_pad_transcripts:
  "i < n \<Longrightarrow> pad_transcripts n transcripts ! i =
     (case transcripts of None \<Rightarrow> None
      | Some ts \<Rightarrow> if i < length ts then ts ! i else None)"
  by (auto simp: pad_transcripts_def Let_def nth_append split: option.splits)

lemma length_initial_samples:
  "length audio_paths \<le> length tls \<Longrightarrow> length (initial_samples sf audio_paths tls) = length audio_paths"
  by (simp add: initial_samples_def)

lemma nth_initial_samples:
  "length audio_paths \<le> length tls \<Longrightarrow> i < length audio_paths \<Longrightarrow>
   initial_samples sf audio_paths tls ! i =
     \<lparr>path = audio_paths ! i, duration = get_audio_duration sf (audio_paths ! i),
      transcript = tls ! i, snr_estimate = Some (estimate_snr sf (audio_paths ! i)),
      is_primary = (i = 0), weight = 1\<rparr>"
  by (simp add: initial_samples_def nth_enumerate_eq)

lemma map_duration_initial_samples:
  "length audio_paths \<le> length tls \<Longrightarrow>
   map duration (initial_samples sf audio_paths tls) = map (get_audio_duration sf) audio_paths"
  by (rule nth_equalityI) (simp_all add: length_initial_samples nth_initial_samples)

lemma map_weight_initial_samples:
  "map weight (initial_samples sf audio_paths tls) = replicate (length (initial_samples sf audio_paths tls)) 1"
  by (rule nth_equalityI) (simp_all add: initial_samples_def nth_enumerate_eq split_beta)

subsection \<open>Primary selection\<close>

lemma foldl_max_key:
  fixes f :: "'a \<Rightarrow> real"
  shows "\<exists>pre post. x # xs = pre @ foldl (\<lambda>best y. if f best < f y then y else best) x xs # post \<and>
           (\<forall>y\<in>set pre. f y < f (foldl (\<lambda>best y. if f best < f y then y else best) x xs)) \<and>
           (\<forall>y\<in>set post. f y \<le> f (foldl (\<lambda>best y. if f best < f y then y else best) x xs))"
proof (induction xs rule: rev_induct)
  case Nil
  show ?case by (intro exI [of _ "[]"]) simp
next
  case (snoc y xs)
  let ?b = "foldl (\<lambda>best y. if f best < f y then y else best) x xs"
  let ?b' = "foldl (\<lambda>best y. if f best < f y then y else best) x (xs @ [y])"
  from snoc obtain pre post where d: "x # xs = pre @ ?b # post"
    and pre: "\<forall>z\<in>set pre. f z < f ?b" and post: "\<forall>z\<in>set post. f z \<le> f ?b"
    by blast
  have fl: "?b' = (if f ?b < f y then y else ?b)" by simp
  show ?case
  proof (cases "f ?b < f y")
    case True
    then have b': "?b' = y" using fl by simp
    have all: "\<forall>z\<in>set (x # xs). f z < f y"
    proof
      fix z assume "z \<in> set (x # xs)"
      then have "z \<in> set pre \<or> z = ?b \<or> z \<in> set post" by (simp only: d) auto
      then show "f z < f y" using pre post True by fastforce
    qed
    have "x # xs @ [y] = (x # xs) @ ?b' # [] \<and> (\<forall>z\<in>set (x # xs). f z < f ?b') \<and>
          (\<forall>z\<in>set []. f z \<le> f ?b')"
      using all by (simp only: b') simp
    then show ?thesis by blast
  next
    case False
    then have b': "?b' = ?b" using fl by simp
    have e: "x # xs @ [y] = pre @ ?b # (post @ [y])" using d by simp
    have p2: "\<forall>z\<in>set (post @ [y]). f z \<le> f ?b" using post False by auto
    have "x # xs @ [y] = pre @ ?b' # (post @ [y]) \<and> (\<forall>z\<in>set pre. f z < f ?b') \<and>
          (\<forall>z\<in>set (post @ [y]). f z \<le> f ?b')"
      using e pre p2 by (simp only: b')
    then show ?thesis by blast
  qed
qed

lemma py_max_key_first_max:
  fixes f :: "'a \<Rightarrow> real"
  assumes "xs \<noteq> []"
  shows "\<exists>b pre post. py_max_key f xs = Inr b \<and> xs = pre @ b # post \<and>
           (\<forall>y\<in>set pre. f y < f b) \<and> (\<forall>y\<in>set post. f y \<le> f b)"
proof -
  obtain x rest where xs: "xs = x # rest" using assms by (cases xs) auto
  show ?thesis unfolding xs using foldl_max_key [of x rest f] by auto
qed

lemma candidates_nonempty: "samples \<noteq> [] \<Longrightarrow> candidates samples \<noteq> []"
  by (simp add: candidates_def)

lemma candidates_sorted: "sorted (candidates samples) \<and> distinct (candidates samples)"
  by (simp add: candidates_def samples_with_transcript_def sorted_wrt_filter)

lemma candidates_bound: "i \<in> set (candidates samples) \<Longrightarrow> i < length samples"
  by (auto simp: candidates_def samples_with_transcript_def split: if_splits)

lemma select_primary_char:
  assumes "samples \<noteq> []"
  shows "\<exists>b. select_primary samples =
               Inr (map (\<lambda>(i, s). s\<lparr>is_primary := (i = b)\<rparr>) (enumerate 0 samples)) \<and>
             b \<in> set (candidates samples) \<and>
             (\<forall>j\<in>set (candidates samples).
                primary_key samples j \<le> primary_key samples b \<and>
                (primary_key samples j = primary_key samples b \<longrightarrow> b \<le> j))"
proof -
  let ?f = "primary_key samples"
  let ?c = "candidates samples"
  obtain b pre post where mx: "py_max_key ?f ?c = Inr b" and d: "?c = pre @ b # post"
    and pre: "\<forall>y\<in>set pre. ?f y < ?f b" and post: "\<forall>y\<in>set post. ?f y \<le> ?f b"
    using py_max_key_first_max [OF candidates_nonempty [OF assms]] by blast
  have srt: "sorted (pre @ b # post)" using candidates_sorted [of samples] d by simp
  have sel: "select_primary samples = Inr (map (\<lambda>(i, s). s\<lparr>is_primary := (i = b)\<rparr>) (enumerate 0 samples))"
    using assms mx by (simp add: select_primary_def)
  have mem: "b \<in> set ?c" using d by simp
  have "\<forall>j\<in>set ?c. ?f j \<le> ?f b \<and> (?f j = ?f b \<longrightarrow> b \<le> j)"
  proof
    fix j assume "j \<in> set ?c"
    then consider "j \<in> set pre" | "j = b" | "j \<in> set post" using d by auto
    then show "?f j \<le> ?f b \<and> (?f j = ?f b \<longrightarrow> b \<le> j)"
    proof cases
      case 1 then show ?thesis using pre by fastforce
    next
      case 2 then show ?thesis by simp
    next
      case 3 then show ?thesis using post srt by (auto simp: sorted_append)
    qed
  qed
  with sel mem show ?thesis by blast
qed

lemma compute_weights_fields:
  assumes "compute_weights samples = Inr w"
  shows "length w = length samples" "map path w = map path samples"
    "map duration w = map duration samples" "map transcript w = map transcript samples"
    "map snr_estimate w = map snr_estimate samples"
  using assms by (auto simp: compute_weights_eq split: if_splits)

lemma normalize_weights_fields:
  assumes "normalize_weights samples = Inr w"
  shows "length w = length samples" "map path w = map path samples"
    "map duration w = map duration samples" "map transcript w = map transcript samples"
    "map snr_estimate w = map snr_estimate samples"
  using assms by (auto simp: normalize_weights_eq split: if_splits)

lemma select_primary_Inr: "\<exists>rs. select_primary samples = Inr rs"
proof (cases "samples = []")
  case True
  then show ?thesis by (simp add: select_primary_def)
next
  case False
  from select_primary_char [OF False] show ?thesis by blast
qed

lemma map_field_enumerate:
  assumes "\<And>i s. g (h i s) = g s"
  shows "map (g \<circ> (\<lambda>(i, s). h i s)) (enumerate n xs) = map g xs"
  by (induction xs arbitrary: n) (simp_all add: assms)

lemma select_primary_fields:
  assumes "select_primary samples = Inr rs"
  shows "length rs = length samples" "map path rs = map path samples"
    "map duration rs = map duration samples" "map transcript rs = map transcript samples"
    "map snr_estimate rs = map snr_estimate samples" "map weight rs = map weight samples"
proof -
  have "samples = [] \<or> (\<exists>b. rs = map (\<lambda>(i, s). s\<lparr>is_primary := (i = b)\<rparr>) (enumerate 0 samples))"
    using assms select_primary_char [of samples] by (cases "samples = []") auto
  moreover have "rs = []" if "samples = []"
    using assms that by (simp add: select_primary_def)
  ultimately show "length rs = length samples" "map path rs = map path samples"
    "map duration rs = map duration samples" "map transcript rs = map transcript samples"
    "map snr_estimate rs = map snr_estimate samples" "map weight rs = map weight samples"
    by (auto simp: map_field_enumerate)
qed

lemma analyze_stages:
  "\<exists>w1 w2 rs. compute_weights (initial_samples sf ps (pad_transcripts (length ps) ts)) = Inr w1 \<and>
      normalize_weights w1 = Inr w2 \<and> select_primary w2 = Inr rs \<and>
      analyze_audio_samples sf ps ts = Inr rs"
proof -
  obtain w1 where w1: "compute_weights (initial_samples sf ps (pad_transcripts (length ps) ts)) = Inr w1"
    by (simp add: compute_weights_eq)
  obtain w2 where w2: "normalize_weights w1 = Inr w2"
    by (simp add: normalize_weights_eq)
  obtain rs where rs: "select_primary w2 = Inr rs"
    using select_primary_Inr by blast
  have "analyze_audio_samples sf ps ts = Inr rs"
    by (simp add: analyze_audio_samples_def w1 w2 rs)
  with w1 w2 rs show ?thesis by blast
qed

lemma candidates_cong:
  assumes "length a = length b" "map transcript a = map transcript b"
  shows "candidates a = candidates b"
proof -
  have "transcript (a ! i) = transcript (b ! i)" if "i < length a" for i
    using assms that by (metis nth_map)
  then have "samples_with_transcript a = samples_with_transcript b"
    unfolding samples_with_transcript_def using assms(1)
    by (auto intro!: filter_cong)
  then show ?thesis by (simp add: candidates_def assms(1))
qed

lemma primary_key_cong:
  assumes "length a = length b" "map duration a = map duration b"
    "map snr_estimate a = map snr_estimate b" "i < length a"
  shows "primary_key a i = primary_key b i"
proof -
  have "duration (a ! i) = duration (b ! i)" using assms by (metis nth_map)
  moreover have "snr_estimate (a ! i) = snr_estimate (b ! i)" using assms by (metis nth_map)
  ultimately show ?thesis by (simp add: primary_key_def)
qed

subsection \<open>The analyzer: results\<close>

lemma analyze_fields:
  "\<exists>rs. analyze_audio_samples sf ps ts = Inr rs \<and> length rs = length ps \<and>
     map path rs = ps \<and>
     map duration rs = map (get_audio_duration sf) ps \<and>
     map snr_estimate rs = map (\<lambda>p. Some (estimate_snr sf p)) ps \<and>
     map transcript rs = take (length ps) (pad_transcripts (length ps) ts)"
proof -
  let ?tls = "pad_transcripts (length ps) ts"
  let ?s0 = "initial_samples sf ps ?tls"
  have len: "length ps \<le> length ?tls" by (rule length_pad_transcripts)
  obtain w1 w2 rs where w1: "compute_weights ?s0 = Inr w1" and w2: "normalize_weights w1 = Inr w2"
    and rs: "select_primary w2 = Inr rs" and an: "analyze_audio_samples sf ps ts = Inr rs"
    using analyze_stages by blast
  note f1 = compute_weights_fields [OF w1]
  note f2 = normalize_weights_fields [OF w2]
  note f3 = select_primary_fields [OF rs]
  have l0: "length ?s0 = length ps" by (rule length_initial_samples [OF len])
  have p0: "map path ?s0 = ps"
    by (rule nth_equalityI) (simp_all add: l0 nth_initial_samples [OF len])
  have d0: "map duration ?s0 = map (get_audio_duration sf) ps"
    by (rule map_duration_initial_samples [OF len])
  have q0: "map snr_estimate ?s0 = map (\<lambda>p. Some (estimate_snr sf p)) ps"
    by (rule nth_equalityI) (simp_all add: l0 nth_initial_samples [OF len])
  have t0: "map transcript ?s0 = take (length ps) ?tls"
    using len by (intro nth_equalityI) (simp_all add: l0 nth_initial_samples [OF len])
  show ?thesis
    using an f1 f2 f3 l0 p0 d0 q0 t0 by simp
qed

text \<open>
  C3. \<open>analyze_audio_samples\<close> returns for every input, one record per path and in the
  order of the paths. A transcript that the (possibly shorter, possibly absent) transcript
  list does not provide is \<open>None\<close>. A record whose path cannot be read has duration 0
  and the quality estimate 20 dB.
\<close>

theorem analyze_never_raises:
  "\<exists>rs. analyze_audio_samples sf audio_paths transcripts = Inr rs \<and>
     length rs = length audio_paths \<and>
     (\<forall>i<length audio_paths.
        path (rs ! i) = audio_paths ! i \<and>
        transcript (rs ! i) =
          (case transcripts of None \<Rightarrow> None
           | Some ts \<Rightarrow> if i < length ts then ts ! i else None) \<and>
        (sf (audio_paths ! i) = ReadError \<longrightarrow>
           duration (rs ! i) = 0 \<and> snr_estimate (rs ! i) = Some 20))"
proof -
  obtain rs where an: "analyze_audio_samples sf audio_paths transcripts = Inr rs"
    and len: "length rs = length audio_paths"
    and p: "map path rs = audio_paths"
    and d: "map duration rs = map (get_audio_duration sf) audio_paths"
    and q: "map snr_estimate rs = map (\<lambda>p. Some (estimate_snr sf p)) audio_paths"
    and t: "map transcript rs = take (length audio_paths) (pad_transcripts (length audio_paths) transcripts)"
    using analyze_fields by blast
  have "path (rs ! i) = audio_paths ! i \<and>
        transcript (rs ! i) =
          (case transcripts of None \<Rightarrow> None
           | Some ts \<Rightarrow> if i < length ts then ts ! i else None) \<and>
        (sf (audio_paths ! i) = ReadError \<longrightarrow>
           duration (rs ! i) = 0 \<and> snr_estimate (rs ! i) = Some 20)"
    if i: "i < length audio_paths" for i
  proof -
    have "path (rs ! i) = map path rs ! i" using i len by simp
    then have 1: "path (rs ! i) = audio_paths ! i" by (simp add: p)
    have "transcript (rs ! i) = map transcript rs ! i" using i len by simp
    then have 2: "transcript (rs ! i) =
          (case transcripts of None \<Rightarrow> None
           | Some ts \<Rightarrow> if i < length ts then ts ! i else None)"
      using i by (simp add: t nth_pad_transcripts)
    have "duration (rs ! i) = map duration rs ! i" using i len by simp
    then have 3: "duration (rs ! i) = get_audio_duration sf (audio_paths ! i)"
      using i by (simp add: d)
    have "snr_estimate (rs ! i) = map snr_estimate rs ! i" using i len by simp
    then have 4: "snr_estimate (rs ! i) = Some (estimate_snr sf (audio_paths ! i))"
      using i by (simp add: q)
    show ?thesis
      using 1 2 3 4 by (simp add: get_audio_duration_def estimate_snr_def)
  qed
  with an len show ?thesis by blast
qed

text \<open>
  C3, an instance: a readable and an unreadable path with a single transcript.
\<close>

theorem analyze_never_raises_witness:
  "\<exists>rs. analyze_audio_samples demo_sf [''short.wav'', ''missing.wav''] (Some [Some demo_hello]) = Inr rs \<and>
     length rs = 2 \<and>
     transcript (rs ! 0) = Some demo_hello \<and> transcript (rs ! 1) = None \<and>
     duration (rs ! 1) = 0 \<and> snr_estimate (rs ! 1) = Some 20"
proof -
  have r: "demo_sf ([''short.wav'', ''missing.wav''] ! 1) = ReadError"
    by (simp add: demo_sf_def)
  show ?thesis
    using analyze_never_raises [of demo_sf "[''short.wav'', ''missing.wav'']" "Some [Some demo_hello]"] r
    by (auto simp: numeral_2_eq_2 less_Suc_eq)
qed

subsection \<open>The analyzer: weights\<close>

lemma sum_list_map_divide:
  "sum_list (map (\<lambda>x. f x / c) xs) = sum_list (map f xs) / c" for c :: real
  by (induction xs) (simp_all add: add_divide_distrib)

lemma sum_list_map_affine:
  "sum_list (map (\<lambda>x. a * (f x / c) + b * g x) xs) =
     a * (sum_list (map f xs) / c) + b * sum_list (map g xs)" for a b c :: real
  by (induction xs) (simp_all add: add_divide_distrib algebra_simps)

lemma get_audio_duration_nonneg: "0 \<le> get_audio_duration sf p"
  by (simp add: get_audio_duration_def py_truediv_def split: sf_result.splits)

lemma estimate_snr_range: "0 \<le> estimate_snr sf p \<and> estimate_snr sf p \<le> 60"
  by (simp add: estimate_snr_def Let_def split: sf_result.splits)

lemma quality_weight_range:
  assumes "snr_estimate s = Some q" "0 \<le> q"
  shows "0 < quality_weight s \<and> quality_weight s \<le> 1"
  using assms by (simp add: quality_weight_def py_or_def Let_def)

lemma analyze_weights:
  "\<exists>rs w1. analyze_audio_samples sf ps ts = Inr rs \<and>
     compute_weights (initial_samples sf ps (pad_transcripts (length ps) ts)) = Inr w1 \<and>
     length w1 = length ps \<and>
     map duration w1 = map (get_audio_duration sf) ps \<and>
     map snr_estimate w1 = map (\<lambda>p. Some (estimate_snr sf p)) ps \<and>
     map weight rs =
       (if 0 < sum_list (map weight w1)
        then map (\<lambda>s. weight s / sum_list (map weight w1)) w1
        else map weight w1)"
proof -
  let ?tls = "pad_transcripts (length ps) ts"
  let ?s0 = "initial_samples sf ps ?tls"
  have len: "length ps \<le> length ?tls" by (rule length_pad_transcripts)
  obtain w1 w2 rs where w1: "compute_weights ?s0 = Inr w1" and w2: "normalize_weights w1 = Inr w2"
    and rs: "select_primary w2 = Inr rs" and an: "analyze_audio_samples sf ps ts = Inr rs"
    using analyze_stages by blast
  note f1 = compute_weights_fields [OF w1]
  note f3 = select_primary_fields [OF rs]
  have l0: "length ?s0 = length ps" by (rule length_initial_samples [OF len])
  have d0: "map duration ?s0 = map (get_audio_duration sf) ps"
    by (rule map_duration_initial_samples [OF len])
  have q0: "map snr_estimate ?s0 = map (\<lambda>p. Some (estimate_snr sf p)) ps"
    by (rule nth_equalityI) (simp_all add: l0 nth_initial_samples [OF len])
  have "map weight w2 =
       (if 0 < sum_list (map weight w1)
        then map (\<lambda>s. weight s / sum_list (map weight w1)) w1
        else map weight w1)"
    using w2 by (auto simp: normalize_weights_eq split: if_splits)
  then show ?thesis
    using an w1 f1 f3 l0 d0 q0 by auto
qed

text \<open>The example files: durations and quality estimates.\<close>

lemma demo_missing [simp]: "demo_sf ''missing.wav'' = ReadError"
  by (simp add: demo_sf_def)

lemma demo_duration_missing: "get_audio_duration demo_sf ''missing.wav'' = 0"
  by (simp add: get_audio_duration_def)

lemma demo_duration_short: "get_audio_duration demo_sf ''short.wav'' = 1 / 10"
  by (simp add: get_audio_duration_def demo_sf_def py_truediv_def)

lemma demo_duration_silence: "get_audio_duration demo_sf ''silence.wav'' = 2"
  by (simp add: get_audio_duration_def demo_sf_def py_truediv_def)

lemma demo_snr_missing: "estimate_snr demo_sf ''missing.wav'' = 20"
  by (simp add: estimate_snr_def)

lemma demo_snr_silence: "estimate_snr demo_sf ''silence.wav'' = 0"
  by (simp add: estimate_snr_def demo_sf_def rms_def mean_def near_zero_def sum_list_replicate)

lemma demo_snr_short: "estimate_snr demo_sf ''short.wav'' = 20"
  by (simp add: estimate_snr_def demo_sf_def rms_def mean_def near_zero_def sum_list_replicate
      frame_size_of_def)

text \<open>
  C2 (as amended). When the total duration is 0 the duration and quality weighting of
  lines 117-127 is skipped, every record keeps the dataclass default weight 1.0, and the
  renormalization of lines 130-133 makes every weight \<open>1 / n\<close> for \<open>n\<close> records: the
  weights are uniform, not 0.
\<close>

theorem zero_duration_uniform_weights:
  assumes "sum_list (map (get_audio_duration sf) audio_paths) = 0"
  shows "\<exists>rs. analyze_audio_samples sf audio_paths transcripts = Inr rs \<and>
           length rs = length audio_paths \<and>
           map weight rs = replicate (length audio_paths) (1 / real (length audio_paths))"
proof -
  let ?n = "length audio_paths"
  let ?s0 = "initial_samples sf audio_paths (pad_transcripts ?n transcripts)"
  obtain rs w1 where an: "analyze_audio_samples sf audio_paths transcripts = Inr rs"
    and w1: "compute_weights ?s0 = Inr w1" and l1: "length w1 = ?n"
    and d1: "map duration w1 = map (get_audio_duration sf) audio_paths"
    and w: "map weight rs =
       (if 0 < sum_list (map weight w1)
        then map (\<lambda>s. weight s / sum_list (map weight w1)) w1
        else map weight w1)"
    using analyze_weights by blast
  have "sum_list (map duration ?s0) = 0"
    using assms w1 d1 compute_weights_fields(3) [OF w1] by simp
  then have "w1 = ?s0" using w1 by (simp add: compute_weights_eq)
  then have ones: "map weight w1 = replicate ?n 1"
    using map_weight_initial_samples [of sf audio_paths "pad_transcripts ?n transcripts"] l1 by simp
  then have total: "sum_list (map weight w1) = real ?n" by (simp add: sum_list_replicate)
  have "map (\<lambda>s. weight s / real ?n) w1 = map (\<lambda>x. x / real ?n) (map weight w1)" by simp
  also have "\<dots> = replicate ?n (1 / real ?n)" by (simp only: ones map_replicate)
  finally have "map weight rs = replicate ?n (1 / real ?n)"
    using w total ones by (cases "?n = 0") simp_all
  moreover have "length rs = ?n" using w l1 by (metis length_map)
  ultimately show ?thesis using an by blast
qed

text \<open>C2, an instance: two unreadable paths, each of weight 1/2.\<close>

theorem zero_duration_uniform_weights_witness:
  "sum_list (map (get_audio_duration demo_sf) [''missing.wav'', ''missing.wav'']) = 0 \<and>
   (\<exists>rs. analyze_audio_samples demo_sf [''missing.wav'', ''missing.wav''] None = Inr rs \<and>
      length rs = 2 \<and> map weight rs = [1 / 2, 1 / 2])"
proof -
  have h: "sum_list (map (get_audio_duration demo_sf) [''missing.wav'', ''missing.wav'']) = 0"
    by (simp add: demo_duration_missing)
  show ?thesis
    using zero_duration_uniform_weights [OF h, of None] h
    by (simp add: numeral_2_eq_2)
qed

text \<open>
  C2 as stated fails: for a single unreadable path the total duration is 0 and the
  weight of the record is 1, not 0.
\<close>

theorem zero_duration_weight_is_one:
  "sum_list (map (get_audio_duration demo_sf) [''missing.wav'']) = 0 \<and>
   analyze_audio_samples demo_sf [''missing.wav''] None =
     Inr [\<lparr>path = ''missing.wav'', duration = 0, transcript = None, snr_estimate = Some 20,
           is_primary = True, weight = 1\<rparr>]"
  by (simp add: analyze_audio_samples_def compute_weights_eq normalize_weights_eq
      select_primary_def initial_samples_def pad_transcripts_def candidates_def
      samples_with_transcript_def has_transcript_def demo_duration_missing demo_snr_missing)

text \<open>
  C4. When the total duration is positive, the weights of the returned records are
  non-negative and sum to 1 (exactly, in real arithmetic; hence within \<open>1e-6\<close>).
\<close>

theorem weights_sum_to_one:
  assumes "0 < sum_list (map (get_audio_duration sf) audio_paths)"
  shows "\<exists>rs. analyze_audio_samples sf audio_paths transcripts = Inr rs \<and>
           (\<forall>s\<in>set rs. 0 \<le> weight s) \<and>
           sum_list (map weight rs) = 1 \<and>
           \<bar>sum_list (map weight rs) - 1\<bar> \<le> 1 / 10 ^ 6"
proof -
  let ?n = "length audio_paths"
  let ?T = "sum_list (map (get_audio_duration sf) audio_paths)"
  let ?s0 = "initial_samples sf audio_paths (pad_transcripts ?n transcripts)"
  obtain rs w1 where an: "analyze_audio_samples sf audio_paths transcripts = Inr rs"
    and w1: "compute_weights ?s0 = Inr w1" and l1: "length w1 = ?n"
    and d1: "map duration w1 = map (get_audio_duration sf) audio_paths"
    and q1: "map snr_estimate w1 = map (\<lambda>p. Some (estimate_snr sf p)) audio_paths"
    and w: "map weight rs =
       (if 0 < sum_list (map weight w1)
        then map (\<lambda>s. weight s / sum_list (map weight w1)) w1
        else map weight w1)"
    using analyze_weights by blast
  have T0: "sum_list (map duration ?s0) = ?T"
    using d1 compute_weights_fields(3) [OF w1] by simp
  have D0: "map duration ?s0 = map (get_audio_duration sf) audio_paths"
    using d1 compute_weights_fields(3) [OF w1] by simp
  have Q0: "map snr_estimate ?s0 = map (\<lambda>p. Some (estimate_snr sf p)) audio_paths"
    using q1 compute_weights_fields(5) [OF w1] by simp
  have d0: "0 \<le> duration s" if "s \<in> set ?s0" for s
  proof -
    have "duration s \<in> set (map duration ?s0)" using that by simp
    then have "duration s \<in> set (map (get_audio_duration sf) audio_paths)"
      by (simp only: D0)
    then show ?thesis using get_audio_duration_nonneg by auto
  qed
  have q0: "0 < quality_weight s" if "s \<in> set ?s0" for s
  proof -
    have "snr_estimate s \<in> set (map snr_estimate ?s0)" using that by simp
    then have "snr_estimate s \<in> set (map (\<lambda>p. Some (estimate_snr sf p)) audio_paths)"
      by (simp only: Q0)
    then obtain p where "snr_estimate s = Some (estimate_snr sf p)" by auto
    then show ?thesis using quality_weight_range estimate_snr_range by blast
  qed
  have w1eq: "map weight w1 = map (\<lambda>s. 0.7 * (duration s / ?T) + 0.3 * quality_weight s) ?s0"
    using w1 assms T0 by (auto simp: compute_weights_eq)
  have qsum: "0 \<le> sum_list (map quality_weight ?s0)"
    by (rule sum_list_nonneg) (use q0 in force)
  have "sum_list (map weight w1) = 0.7 * (?T / ?T) + 0.3 * sum_list (map quality_weight ?s0)"
    unfolding w1eq sum_list_map_affine T0 ..
  then have W: "0 < sum_list (map weight w1)" using assms qsum by simp
  have nonneg1: "0 \<le> x" if "x \<in> set (map weight w1)" for x
  proof -
    from that obtain s where s: "s \<in> set ?s0" and x: "x = 0.7 * (duration s / ?T) + 0.3 * quality_weight s"
      unfolding w1eq by auto
    have "0 \<le> duration s / ?T" using d0 [OF s] assms by simp
    then show ?thesis using q0 [OF s] x by simp
  qed
  have wrs: "map weight rs = map (\<lambda>x. x / sum_list (map weight w1)) (map weight w1)"
    using w W by simp
  have nonneg: "\<forall>s\<in>set rs. 0 \<le> weight s"
  proof
    fix s assume "s \<in> set rs"
    then have "weight s \<in> set (map weight rs)" by simp
    then obtain x where "x \<in> set (map weight w1)" "weight s = x / sum_list (map weight w1)"
      unfolding wrs by auto
    then show "0 \<le> weight s" using nonneg1 W by simp
  qed
  have "sum_list (map weight rs) = sum_list (map weight w1) / sum_list (map weight w1)"
    unfolding wrs by (simp only: sum_list_map_divide [of "\<lambda>x. x"] map_ident)
  then have one: "sum_list (map weight rs) = 1" using W by simp
  show ?thesis using an nonneg one by simp
qed

text \<open>C4, an instance: a readable file of 0.1 s and an unreadable path.\<close>

theorem weights_sum_to_one_witness:
  "0 < sum_list (map (get_audio_duration demo_sf) [''short.wav'', ''missing.wav'']) \<and>
   (\<exists>rs. analyze_audio_samples demo_sf [''short.wav'', ''missing.wav''] None = Inr rs \<and>
      sum_list (map weight rs) = 1)"
proof -
  have h: "0 < sum_list (map (get_audio_duration demo_sf) [''short.wav'', ''missing.wav''])"
    by (simp add: demo_duration_missing demo_duration_short)
  show ?thesis
    using weights_sum_to_one [OF h, of None] h by blast
qed

subsection \<open>The analyzer: the primary sample\<close>

lemma analyze_primary:
  assumes "ps \<noteq> []"
  shows "\<exists>rs b. analyze_audio_samples sf ps ts = Inr rs \<and> length rs = length ps \<and>
           b < length rs \<and> b \<in> set (candidates rs) \<and>
           (\<forall>i<length rs. is_primary (rs ! i) = (i = b)) \<and>
           (\<forall>j\<in>set (candidates rs).
              primary_key rs j \<le> primary_key rs b \<and>
              (primary_key rs j = primary_key rs b \<longrightarrow> b \<le> j))"
proof -
  let ?s0 = "initial_samples sf ps (pad_transcripts (length ps) ts)"
  obtain w1 w2 rs where w1: "compute_weights ?s0 = Inr w1" and w2: "normalize_weights w1 = Inr w2"
    and rs: "select_primary w2 = Inr rs" and an: "analyze_audio_samples sf ps ts = Inr rs"
    using analyze_stages by blast
  have l0: "length ?s0 = length ps"
    by (rule length_initial_samples [OF length_pad_transcripts])
  have l2: "length w2 = length ps"
    using compute_weights_fields(1) [OF w1] normalize_weights_fields(1) [OF w2] l0 by simp
  then have ne: "w2 \<noteq> []" using assms by auto
  note f3 = select_primary_fields [OF rs]
  obtain b where sel: "select_primary w2 = Inr (map (\<lambda>(i, s). s\<lparr>is_primary := (i = b)\<rparr>) (enumerate 0 w2))"
    and mem: "b \<in> set (candidates w2)"
    and mx: "\<forall>j\<in>set (candidates w2). primary_key w2 j \<le> primary_key w2 b \<and>
                (primary_key w2 j = primary_key w2 b \<longrightarrow> b \<le> j)"
    using select_primary_char [OF ne] by blast
  have rs_eq: "rs = map (\<lambda>(i, s). s\<lparr>is_primary := (i = b)\<rparr>) (enumerate 0 w2)"
    using rs sel by simp
  have cand: "candidates rs = candidates w2"
    by (rule candidates_cong) (simp_all add: f3)
  have key: "primary_key rs j = primary_key w2 j" if "j \<in> set (candidates w2)" for j
    by (rule primary_key_cong) (use f3 candidates_bound [OF that] in simp_all)
  have lrs: "length rs = length ps" using f3(1) l2 by simp
  have b: "b < length rs" using candidates_bound [OF mem] f3(1) by simp
  have prim: "\<forall>i<length rs. is_primary (rs ! i) = (i = b)"
    using f3(1) by (simp add: rs_eq nth_enumerate_eq)
  have mx': "\<forall>j\<in>set (candidates rs).
              primary_key rs j \<le> primary_key rs b \<and>
              (primary_key rs j = primary_key rs b \<longrightarrow> b \<le> j)"
    using mx mem by (simp add: cand key)
  show ?thesis
    using an lrs b mem prim mx' cand by auto
qed

lemma has_transcript_hello: "has_transcript (Some demo_hello)"
  by (simp add: has_transcript_def strip_def py_isspace_def demo_hello_def)

lemma has_transcript_world: "has_transcript (Some demo_world)"
  by (simp add: has_transcript_def strip_def py_isspace_def demo_world_def)

text \<open>
  The predicates of the primary selection, spelled out: which code points are white
  space, when a transcript counts, which indices are candidates, and the key.
\<close>

lemma py_isspace_iff:
  "py_isspace c \<longleftrightarrow>
     c \<in> {9..13} \<union> {28..32} \<union> {133, 160, 5760} \<union> {8192..8202} \<union> {8232, 8233, 8239, 8287, 12288}"
  by (auto simp: py_isspace_def)

lemma strip_nonempty_iff: "strip s \<noteq> [] \<longleftrightarrow> (\<exists>c\<in>set s. \<not> py_isspace c)"
proof
  assume ne: "strip s \<noteq> []"
  have "dropWhile py_isspace s \<noteq> []"
  proof
    assume "dropWhile py_isspace s = []"
    then have "strip s = []" by (simp only: strip_def rev.simps dropWhile.simps)
    with ne show False by simp
  qed
  then show "\<exists>c\<in>set s. \<not> py_isspace c" by (metis dropWhile_eq_Nil_conv)
next
  assume "\<exists>c\<in>set s. \<not> py_isspace c"
  then have ne: "dropWhile py_isspace s \<noteq> []" by (simp add: dropWhile_eq_Nil_conv)
  then have "\<not> py_isspace (hd (dropWhile py_isspace s))" by (rule hd_dropWhile)
  moreover have "hd (dropWhile py_isspace s) \<in> set (rev (dropWhile py_isspace s))"
    using ne by simp
  ultimately have "dropWhile py_isspace (rev (dropWhile py_isspace s)) \<noteq> []"
    by (auto simp: dropWhile_eq_Nil_conv)
  then show "strip s \<noteq> []" by (simp add: strip_def)
qed

lemma has_transcript_iff:
  "has_transcript t \<longleftrightarrow>
     (\<exists>s. t = Some s \<and>
        \<not> set s \<subseteq> {9..13} \<union> {28..32} \<union> {133, 160, 5760} \<union> {8192..8202}
                      \<union> {8232, 8233, 8239, 8287, 12288})"
proof (cases t)
  case None
  then show ?thesis by (simp add: has_transcript_def)
next
  case (Some s)
  have "has_transcript t \<longleftrightarrow> (\<exists>c\<in>set s. \<not> py_isspace c)"
    unfolding Some has_transcript_def using strip_nonempty_iff [of s] by auto
  also have "\<dots> \<longleftrightarrow> \<not> set s \<subseteq> {9..13} \<union> {28..32} \<union> {133, 160, 5760} \<union> {8192..8202}
                      \<union> {8232, 8233, 8239, 8287, 12288}"
    unfolding py_isspace_iff by blast
  finally show ?thesis using Some by simp
qed

lemma candidates_set:
  "set (candidates samples) =
     (if \<exists>i<length samples. has_transcript (transcript (samples ! i))
      then {i. i < length samples \<and> has_transcript (transcript (samples ! i))}
      else {i. i < length samples})"
  by (auto simp: candidates_def samples_with_transcript_def filter_empty_conv)

lemma primary_key_eq:
  "primary_key samples i =
     duration (samples ! i) *
       (case snr_estimate (samples ! i) of None \<Rightarrow> 20 | Some q \<Rightarrow> if q = 0 then 20 else q)"
  by (simp add: primary_key_def py_or_def)

text \<open>
  C6 (as amended). On a non-empty input exactly one record is primary, the record at
  some index \<open>b\<close>. A record bears a transcript when its transcript is present and
  contains a character that is not white space (it is not empty after \<open>str.strip()\<close>);
  the candidates are the records that bear a transcript, or all records when none does.
  The primary record is a candidate, it maximizes the key \<open>duration * effective quality\<close>
  among the candidates, where the effective quality is the estimate with 20 dB in place
  of an absent estimate and also of an estimate of exactly 0.0, and among several
  maximal candidates it is the first. In particular, of two records that both bear a
  transcript the second becomes primary when its key is the larger one. Durations,
  estimates and transcripts of the records are those of the input.
\<close>

theorem analyze_primary_selection:
  assumes "audio_paths \<noteq> []"
  shows
    "let ws = {9..13} \<union> {28..32} \<union> {133, 160, 5760} \<union> {8192..8202}
                \<union> {8232, 8233, 8239, 8287, 12288};
         bearing = (\<lambda>r. \<exists>s. transcript r = Some s \<and> \<not> set s \<subseteq> ws);
         key = (\<lambda>r. duration r *
                 (case snr_estimate r of None \<Rightarrow> 20 | Some q \<Rightarrow> if q = 0 then 20 else q))
     in \<exists>rs b. analyze_audio_samples sf audio_paths transcripts = Inr rs \<and>
          length rs = length audio_paths \<and>
          map duration rs = map (get_audio_duration sf) audio_paths \<and>
          map snr_estimate rs = map (\<lambda>p. Some (estimate_snr sf p)) audio_paths \<and>
          (\<forall>i<length rs. transcript (rs ! i) =
             (case transcripts of None \<Rightarrow> None
              | Some ts \<Rightarrow> if i < length ts then ts ! i else None)) \<and>
          b < length rs \<and>
          (\<forall>i<length rs. is_primary (rs ! i) = (i = b)) \<and>
          ((\<exists>i<length rs. bearing (rs ! i)) \<longrightarrow> bearing (rs ! b)) \<and>
          (\<forall>j<length rs. bearing (rs ! j) \<or> \<not> (\<exists>i<length rs. bearing (rs ! i)) \<longrightarrow>
             key (rs ! j) \<le> key (rs ! b) \<and> (key (rs ! j) = key (rs ! b) \<longrightarrow> b \<le> j)) \<and>
          (length rs = 2 \<and> bearing (rs ! 0) \<and> bearing (rs ! 1) \<and> key (rs ! 0) < key (rs ! 1) \<longrightarrow>
             \<not> is_primary (rs ! 0) \<and> is_primary (rs ! 1))"
proof -
  let ?ws = "{9..13} \<union> {28..32} \<union> {133, 160, 5760} \<union> {8192..8202}
                \<union> {8232, 8233, 8239, 8287, 12288::nat}"
  let ?bearing = "\<lambda>r. \<exists>s. transcript r = Some s \<and> \<not> set s \<subseteq> ?ws"
  let ?key = "\<lambda>r. duration r *
                 (case snr_estimate r of None \<Rightarrow> 20 | Some q \<Rightarrow> if q = 0 then 20 else q)"
  obtain rs b where an: "analyze_audio_samples sf audio_paths transcripts = Inr rs"
    and len: "length rs = length audio_paths" and b: "b < length rs"
    and mem: "b \<in> set (candidates rs)"
    and prim: "\<forall>i<length rs. is_primary (rs ! i) = (i = b)"
    and mx: "\<forall>j\<in>set (candidates rs).
              primary_key rs j \<le> primary_key rs b \<and>
              (primary_key rs j = primary_key rs b \<longrightarrow> b \<le> j)"
    using analyze_primary [OF assms] by blast
  obtain rs' where an': "analyze_audio_samples sf audio_paths transcripts = Inr rs'"
    and d': "map duration rs' = map (get_audio_duration sf) audio_paths"
    and q': "map snr_estimate rs' = map (\<lambda>p. Some (estimate_snr sf p)) audio_paths"
    and t': "map transcript rs' =
               take (length audio_paths) (pad_transcripts (length audio_paths) transcripts)"
    using analyze_fields by blast
  have same: "rs' = rs" using an an' by simp
  note d = d' [unfolded same] and q = q' [unfolded same] and t = t' [unfolded same]
  have tr: "\<forall>i<length rs. transcript (rs ! i) =
             (case transcripts of None \<Rightarrow> None
              | Some ts \<Rightarrow> if i < length ts then ts ! i else None)"
  proof (intro allI impI)
    fix i assume i: "i < length rs"
    have "transcript (rs ! i) = map transcript rs ! i" using i by simp
    then show "transcript (rs ! i) =
             (case transcripts of None \<Rightarrow> None
              | Some ts \<Rightarrow> if i < length ts then ts ! i else None)"
      using i len by (simp add: t nth_pad_transcripts)
  qed
  have bear: "?bearing r \<longleftrightarrow> has_transcript (transcript r)" for r
    by (simp only: has_transcript_iff)
  have key: "?key (rs ! j) = primary_key rs j" for j
    by (simp only: primary_key_eq)
  have cand: "j \<in> set (candidates rs) \<longleftrightarrow>
                j < length rs \<and> (?bearing (rs ! j) \<or> \<not> (\<exists>i<length rs. ?bearing (rs ! i)))" for j
    unfolding candidates_set bear by auto
  have c1: "(\<exists>i<length rs. ?bearing (rs ! i)) \<longrightarrow> ?bearing (rs ! b)"
    using mem unfolding cand by blast
  have c2: "\<forall>j<length rs. ?bearing (rs ! j) \<or> \<not> (\<exists>i<length rs. ?bearing (rs ! i)) \<longrightarrow>
             ?key (rs ! j) \<le> ?key (rs ! b) \<and> (?key (rs ! j) = ?key (rs ! b) \<longrightarrow> b \<le> j)"
  proof (intro allI impI)
    fix j assume j: "j < length rs"
      and h: "?bearing (rs ! j) \<or> \<not> (\<exists>i<length rs. ?bearing (rs ! i))"
    then have "j \<in> set (candidates rs)" unfolding cand by blast
    then have "primary_key rs j \<le> primary_key rs b \<and>
              (primary_key rs j = primary_key rs b \<longrightarrow> b \<le> j)"
      using mx by blast
    then show "?key (rs ! j) \<le> ?key (rs ! b) \<and> (?key (rs ! j) = ?key (rs ! b) \<longrightarrow> b \<le> j)"
      unfolding key .
  qed
  have c3: "length rs = 2 \<and> ?bearing (rs ! 0) \<and> ?bearing (rs ! 1) \<and> ?key (rs ! 0) < ?key (rs ! 1) \<longrightarrow>
             \<not> is_primary (rs ! 0) \<and> is_primary (rs ! 1)"
  proof (intro impI, elim conjE)
    assume l: "length rs = 2" and b1: "?bearing (rs ! 1)" and k: "?key (rs ! 0) < ?key (rs ! 1)"
    have "?key (rs ! 1) \<le> ?key (rs ! b)" using c2 l b1 by simp
    then have "b \<noteq> 0" using k by (cases "b = 0") simp_all
    then have "b = 1" using b l by simp
    then show "\<not> is_primary (rs ! 0) \<and> is_primary (rs ! 1)" using prim l by simp
  qed
  show ?thesis
    unfolding Let_def
    by (intro exI [of _ rs] exI [of _ b] conjI an len d q tr b prim c1 c2 c3)
qed

text \<open>
  C6, an instance: the short file first, the silent file second, both with transcripts.
  The keys are 0.1 * 20 = 2 and 2 * 20 = 40, and the second record becomes primary.
\<close>

theorem analyze_primary_selection_witness:
  "[''short.wav'', ''silence.wav''] \<noteq> [] \<and>
   (\<exists>rs. analyze_audio_samples demo_sf [''short.wav'', ''silence.wav'']
           (Some [Some demo_hello, Some demo_world]) = Inr rs \<and>
         length rs = 2 \<and> \<not> is_primary (rs ! 0) \<and> is_primary (rs ! 1))"
proof -
  let ?ps = "[''short.wav'', ''silence.wav'']"
  let ?ts = "Some [Some demo_hello, Some demo_world]"
  let ?ws = "{9..13} \<union> {28..32} \<union> {133, 160, 5760} \<union> {8192..8202}
                \<union> {8232, 8233, 8239, 8287, 12288::nat}"
  let ?bearing = "\<lambda>r. \<exists>s. transcript r = Some s \<and> \<not> set s \<subseteq> ?ws"
  let ?key = "\<lambda>r. duration r *
                 (case snr_estimate r of None \<Rightarrow> 20 | Some q \<Rightarrow> if q = 0 then 20 else q)"
  have ne: "?ps \<noteq> []" by simp
  obtain rs where an: "analyze_audio_samples demo_sf ?ps ?ts = Inr rs"
    and len: "length rs = length ?ps"
    and d: "map duration rs = map (get_audio_duration demo_sf) ?ps"
    and q: "map snr_estimate rs = map (\<lambda>p. Some (estimate_snr demo_sf p)) ?ps"
    and t: "\<forall>i<length rs. transcript (rs ! i) =
             (case ?ts of None \<Rightarrow> None
              | Some ts \<Rightarrow> if i < length ts then ts ! i else None)"
    and two: "length rs = 2 \<and> ?bearing (rs ! 0) \<and> ?bearing (rs ! 1) \<and> ?key (rs ! 0) < ?key (rs ! 1) \<longrightarrow>
             \<not> is_primary (rs ! 0) \<and> is_primary (rs ! 1)"
    using analyze_primary_selection [OF ne, of demo_sf ?ts, unfolded Let_def]
    by (elim exE conjE) (rule that, assumption+)
  have l2: "length rs = 2" using len by simp
  obtain r0 r1 where rs: "rs = [r0, r1]"
    using l2 by (cases rs; cases "tl rs") auto
  have t0: "transcript (rs ! 0) = Some demo_hello" and t1: "transcript (rs ! 1) = Some demo_world"
    using t l2 by simp_all
  have b0: "?bearing (rs ! 0)" unfolding t0 by (simp add: demo_hello_def)
  have b1: "?bearing (rs ! 1)" unfolding t1 by (simp add: demo_world_def)
  have k: "?key (rs ! 0) < ?key (rs ! 1)"
    using d q unfolding rs
    by (simp add: demo_duration_short demo_duration_silence demo_snr_short demo_snr_silence)
  have prem: "length rs = 2 \<and> ?bearing (rs ! 0) \<and> ?bearing (rs ! 1) \<and> ?key (rs ! 0) < ?key (rs ! 1)"
    by (intro conjI l2 b0 b1 k)
  have res: "\<not> is_primary (rs ! 0) \<and> is_primary (rs ! 1)"
    by (rule mp [OF two prem])
  show ?thesis
    by (intro conjI ne exI [of _ rs] an l2 conjunct1 [OF res] conjunct2 [OF res])
qed

text \<open>
  C6 as stated fails: with the silent file first, the second record has the higher
  \<open>duration * quality_estimate\<close> (0.1 * 20 = 2 against 2 * 0 = 0), but the first record
  stays primary, because its estimate 0.0 is replaced by 20 in the key (2 * 20 = 40).
\<close>

theorem primary_stays_on_silent_sample:
  "analyze_audio_samples demo_sf [''silence.wav'', ''short.wav'']
       (Some [Some demo_hello, Some demo_world]) =
     Inr [\<lparr>path = ''silence.wav'', duration = 2, transcript = Some demo_hello,
           snr_estimate = Some 0, is_primary = True, weight = 49 / 60\<rparr>,
          \<lparr>path = ''short.wav'', duration = 1 / 10, transcript = Some demo_world,
           snr_estimate = Some 20, is_primary = False, weight = 11 / 60\<rparr>] \<and>
   demo_hello \<noteq> [] \<and> demo_world \<noteq> [] \<and>
   (2::real) * 0 < 1 / 10 * 20"
proof -
  have ne: "demo_hello \<noteq> [] \<and> demo_world \<noteq> []"
    by (simp add: demo_hello_def demo_world_def)
  show ?thesis
    by (simp add: analyze_audio_samples_def compute_weights_eq normalize_weights_eq
        select_primary_def initial_samples_def pad_transcripts_def candidates_def
        samples_with_transcript_def has_transcript_hello has_transcript_world
        demo_duration_silence demo_duration_short demo_snr_silence demo_snr_short
        quality_weight_def py_or_def primary_key_def ne)
qed

text \<open>
  A transcript of white space only is not empty but does not count: with the transcripts
  \<open>"hello"\<close> and \<open>" "\<close> the first record stays primary although the key of the second
  is the larger one. The same holds for other Unicode white space such as U+00A0.
\<close>

lemma has_transcript_blank: "\<not> has_transcript (Some demo_blank)"
  by (simp add: has_transcript_iff demo_blank_def)

lemma has_transcript_nbsp: "\<not> has_transcript (Some [0xA0]) \<and> \<not> has_transcript (Some [0x3000, 0x85])"
  by (simp add: has_transcript_iff)

lemma blank_transcript_is_no_candidate:
  "analyze_audio_samples demo_sf [''short.wav'', ''silence.wav'']
       (Some [Some demo_hello, Some demo_blank]) =
     Inr [\<lparr>path = ''short.wav'', duration = 1 / 10, transcript = Some demo_hello,
           snr_estimate = Some 20, is_primary = True, weight = 11 / 60\<rparr>,
          \<lparr>path = ''silence.wav'', duration = 2, transcript = Some demo_blank,
           snr_estimate = Some 0, is_primary = False, weight = 49 / 60\<rparr>]"
  by (simp add: analyze_audio_samples_def compute_weights_eq normalize_weights_eq
      select_primary_def initial_samples_def pad_transcripts_def candidates_def
      samples_with_transcript_def has_transcript_hello has_transcript_blank
      demo_duration_silence demo_duration_short demo_snr_silence demo_snr_short
      quality_weight_def py_or_def primary_key_def)



subsection \<open>The quality estimate\<close>

lemma frames_eq:
  "0 < n \<Longrightarrow> frames n xs = map (\<lambda>i. take n (drop (i * n) xs)) [0..<length xs div n]"
proof (induction n xs rule: frames.induct)
  case (1 n xs)
  show ?case
  proof (cases "length xs < n")
    case True
    then show ?thesis by (subst frames.simps) simp
  next
    case False
    then have ge: "n \<le> length xs" by simp
    have d: "length xs div n = Suc ((length xs - n) div n)"
      using le_div_geq [OF "1.prems" ge] .
    have ih: "frames n (drop n xs) =
        map (\<lambda>i. take n (drop (i * n) (drop n xs))) [0..<(length xs - n) div n]"
      using "1.IH" "1.prems" False by simp
    have "frames n xs = take n xs # frames n (drop n xs)"
      using False "1.prems" by (subst frames.simps) simp
    also have "\<dots> = take n xs # map (\<lambda>i. take n (drop (Suc i * n) xs)) [0..<(length xs - n) div n]"
      by (simp add: ih add.commute)
    also have "\<dots> = map (\<lambda>i. take n (drop (i * n) xs)) (0 # map Suc [0..<(length xs - n) div n])"
      by (simp add: comp_def)
    also have "0 # map Suc [0..<(length xs - n) div n] = [0..<length xs div n]"
      unfolding d by (simp add: map_Suc_upt upt_conv_Cons)
    finally show ?thesis .
  qed
qed

lemma frame_rms_of_frames:
  "0 < n \<Longrightarrow> frame_rms_of audio n (length audio div n) = map rms (frames n audio)"
  by (simp add: frame_rms_of_def frames_eq comp_def)

lemma length_frames: "0 < n \<Longrightarrow> length (frames n xs) = length xs div n"
  by (simp add: frames_eq)

lemma frame_size_of_eq: "frame_size_of sr = max 1 (nat \<lfloor>real sr / 50\<rfloor>)"
  by (simp add: frame_size_of_def)

lemma clamp_eq: "clamp 0 60 x = max 0 (min 60 x)"
  by (simp add: clamp_def)

lemma to_mono_eq: "to_mono data = (case data of Mono xs \<Rightarrow> xs | Multi rows \<Rightarrow> map mean rows)"
  by (cases data) simp_all

lemma spec_quality_estimate_alt:
  "spec_quality_estimate data sr =
     (let signal = to_mono data;
          total_rms = rms signal
      in if total_rms < near_zero then 0
         else
           (let fs = frames (frame_size_of sr) signal
            in if length fs < 10 then 20
               else
                 (let noise_floor = percentile (map rms fs) 10
                  in if noise_floor < near_zero then 40
                     else clamp 0 60 (20 * log 10 (total_rms / noise_floor)))))"
  by (simp only: spec_quality_estimate_def to_mono_eq frame_size_of_eq)

text \<open>
  C9. For a file that cannot be read the estimate is 20 dB. For a decoded file with at
  least one sample and a positive sample rate the estimate is the value of the
  specification's algorithm: channels averaged, 0 for a near-silent signal, 20 dB for
  fewer than ten complete 20 ms frames, 40 dB for a near-zero 10th percentile of the
  frame RMS, and otherwise \<open>20 * log10 (total_rms / noise_floor)\<close> clamped to [0, 60].
  The remaining decoded inputs (no samples, or sample rate 0) give 0. The estimate is
  always between 0 and 60.
\<close>

theorem estimate_snr_follows_spec:
  "estimate_snr sf audio_path =
     (case sf audio_path of
        ReadError \<Rightarrow> 20
      | Decoded data sr \<Rightarrow>
          if data_len data = 0 \<or> sr = 0 then 0 else spec_quality_estimate data sr) \<and>
   0 \<le> estimate_snr sf audio_path \<and> estimate_snr sf audio_path \<le> 60"
proof -
  have "estimate_snr sf audio_path = spec_quality_estimate data sr"
    if d: "sf audio_path = Decoded data sr" and n: "data_len data \<noteq> 0" and sr: "sr \<noteq> 0"
    for data sr
  proof -
    have fs: "0 < frame_size_of sr" by (simp add: frame_size_of_def)
    show ?thesis
      using n sr fs
      by (simp add: estimate_snr_def d spec_quality_estimate_alt Let_def
          frame_rms_of_frames length_frames clamp_eq)
  qed
  moreover have "estimate_snr sf audio_path = 0"
    if "sf audio_path = Decoded data sr" and "data_len data = 0 \<or> sr = 0" for data sr
    using that by (auto simp: estimate_snr_def)
  moreover have "estimate_snr sf audio_path = 20" if "sf audio_path = ReadError"
    using that by (simp add: estimate_snr_def)
  ultimately show ?thesis
    using estimate_snr_range [of sf audio_path] by (auto split: sf_result.splits)
qed

text \<open>C9, instances: an unreadable path, the short file and the file without samples.\<close>

theorem estimate_snr_follows_spec_witness:
  "estimate_snr demo_sf ''missing.wav'' = 20 \<and>
   estimate_snr demo_sf ''short.wav'' = spec_quality_estimate (Mono (replicate 1600 1)) 16000 \<and>
   estimate_snr demo_sf ''empty.wav'' = 0"
  using estimate_snr_follows_spec [of demo_sf "''missing.wav''"]
    estimate_snr_follows_spec [of demo_sf "''short.wav''"]
    estimate_snr_follows_spec [of demo_sf "''empty.wav''"]
  by (simp add: demo_sf_def)

subsection \<open>The prompt assembler\<close>

lemma F_normalize_3_4: "F_normalize [3, 4] = [3 / 5, 4 / 5]"
  by (simp add: F_normalize_def l2_norm_3_4 F_normalize_eps_def)

lemma l2_norm_35_45: "l2_norm [3 / 5, 4 / 5] = 1"
  by (simp add: l2_norm_def)

lemma demo_collect:
  "collect_prompts demo_model demo_infos True =
     Inr [(demo_infos ! 0,
           \<lparr>ref_code = Some 7, ref_spk_embedding = [3, 4], x_vector_only_mode = True,
            icl_mode = False, ref_text = Some demo_hello\<rparr>),
          (demo_infos ! 1,
           \<lparr>ref_code = Some 7, ref_spk_embedding = [3, 4], x_vector_only_mode = True,
            icl_mode = False, ref_text = None\<rparr>)]"
  by (simp add: collect_prompts_def demo_model_def demo_infos_def first_item_def)

lemma F_normalize_35_45: "F_normalize [3 / 5, 4 / 5] = [3 / 5, 4 / 5]"
  by (simp add: F_normalize_def l2_norm_35_45 F_normalize_eps_def)

lemma centroid_demo_same: "centroid_of [[3 / 5, 4 / 5], [3 / 5, 4 / 5]] = [3 / 5, 4 / 5]"
  by (simp add: centroid_of_def mean_dim0_def F_normalize_35_45)

lemma weighted_mean_demo_same:
  "weighted_mean [[3 / 5, 4 / 5], [3 / 5, 4 / 5]] [1 / 2, 1 / 2] = Inr [3 / 5, 4 / 5]"
  by (simp add: weighted_mean_eq zeros_like_def add_tensor_def scale_def)

lemma demo_combine:
  "combine_speaker_embeddings [[3, 4], [3, 4]] (Some [1 / 2, 1 / 2]) (7 / 10) = Inr [3 / 5, 4 / 5]"
  by (simp add: combine_speaker_embeddings_def F_normalize_3_4 stack_def centroid_demo_same
      default_weights_def dot_def weighted_mean_demo_same Let_def F_normalize_35_45)

text \<open>
  C7 (as amended). In embedding-only mode, for a non-empty sequence of records on which
  every call of the synthesis model returns a prompt item and the fusion of the returned
  embeddings returns, the result is exactly one prompt: reference code and reference
  text are absent, the reference mode flag is false, and the embedding is the fused one.
  Nothing in the result depends on which record is primary.
\<close>

theorem embedding_only_prompt:
  assumes "sample_infos \<noteq> []"
    and "collect_prompts model sample_infos True = Inr all_prompts"
    and "combine_speaker_embeddings (map (\<lambda>p. ref_spk_embedding (snd p)) all_prompts)
           (Some (map (\<lambda>p. weight (fst p)) all_prompts)) 0.7 = Inr combined"
  shows "create_combined_voice_clone_prompt model sample_infos True =
           Inr [\<lparr>ref_code = None, ref_spk_embedding = combined, x_vector_only_mode = True,
                 icl_mode = False, ref_text = None\<rparr>]"
  using assms by (simp add: create_combined_voice_clone_prompt_def Let_def)

text \<open>
  C7, an instance: two records, the non-primary one with a transcript; the model returns
  a reference code and a text for both, and the assembled prompt has neither.
\<close>

theorem embedding_only_prompt_witness:
  "demo_infos \<noteq> [] \<and>
   create_combined_voice_clone_prompt demo_model demo_infos True =
     Inr [\<lparr>ref_code = None, ref_spk_embedding = [3 / 5, 4 / 5], x_vector_only_mode = True,
           icl_mode = False, ref_text = None\<rparr>]"
proof -
  have ne: "demo_infos \<noteq> []" by (simp add: demo_infos_def)
  have cmb: "combine_speaker_embeddings
               (map (\<lambda>p. ref_spk_embedding (snd p))
                  [(demo_infos ! 0,
                    \<lparr>ref_code = Some (7::nat), ref_spk_embedding = [3, 4], x_vector_only_mode = True,
                     icl_mode = False, ref_text = Some demo_hello\<rparr>),
                   (demo_infos ! 1,
                    \<lparr>ref_code = Some 7, ref_spk_embedding = [3, 4], x_vector_only_mode = True,
                     icl_mode = False, ref_text = None\<rparr>)])
               (Some (map (\<lambda>p. weight (fst p))
                  [(demo_infos ! 0,
                    \<lparr>ref_code = Some (7::nat), ref_spk_embedding = [3, 4], x_vector_only_mode = True,
                     icl_mode = False, ref_text = Some demo_hello\<rparr>),
                   (demo_infos ! 1,
                    \<lparr>ref_code = Some 7, ref_spk_embedding = [3, 4], x_vector_only_mode = True,
                     icl_mode = False, ref_text = None\<rparr>)])) 0.7 = Inr [3 / 5, 4 / 5]"
    using demo_combine by (simp add: demo_infos_def)
  show ?thesis
    using embedding_only_prompt [OF ne demo_collect cmb] ne by simp
qed

text \<open>
  C7 as stated fails: the record of an unreadable path (as the analyzer returns it) makes
  the synthesis model raise, and the assembler has no handler: no prompt is returned.
\<close>

theorem embedding_only_prompt_collaborator_raises:
  "create_combined_voice_clone_prompt demo_model
     [\<lparr>path = ''missing.wav'', duration = 0, transcript = None, snr_estimate = Some 20,
       is_primary = True, weight = 1\<rparr>] True = Inl RuntimeError"
  by (simp add: create_combined_voice_clone_prompt_def collect_prompts_def demo_model_def)

end
